theory Spec2Isabelle
  imports Complex_Main
begin

section \<open>Data model\<close>

text \<open>
  The agent computes with Python floats. They are modelled as real numbers: every
  comparison and every arithmetic step of the source is kept, rounding error and the
  special values NaN and infinity are not. A dictionary value that may be \<^verbatim>\<open>None\<close> (or a
  key that may be missing and is read with \<^verbatim>\<open>.get\<close>) is an \<open>option\<close>.
\<close>

type_synonym coin = string

text \<open>The dictionary built by \<^verbatim>\<open>_calculate_bollinger_bands\<close> (keys upper, middle, lower).\<close>

record bands =
  upper :: "real option"
  middle :: "real option"
  lower :: "real option"

text \<open>
  The entry \<^verbatim>\<open>'bollinger_bands'\<close> of the data dictionary: the key may be missing, it may
  hold \<^verbatim>\<open>None\<close> (what \<^verbatim>\<open>fetch_data\<close> stores for fewer than 20 samples), or a dictionary.
\<close>

datatype bb_field = BB_Missing | BB_None | BB_Dict bands

text \<open>The data dictionary returned by \<^verbatim>\<open>fetch_data\<close>.\<close>

record indicators =
  price :: "real option"
  volume :: "real option"
  rsi :: "real option"
  ema20 :: "real option"
  ema50 :: "real option"
  ema200 :: "real option"
  bollinger_bands :: bb_field
  price_change_7d_percent :: "real option"
  price_change_30d_percent :: "real option"

text \<open>The dictionary returned by \<^verbatim>\<open>analyze_sentiment\<close>.\<close>

record sentiment =
  fgi_score :: "real option"
  fgi_category :: "string option"
  google_trends_interest :: "real option"

text \<open>The macro trend dictionary built in \<^verbatim>\<open>run_signal_analysis_loop\<close>.\<close>

record macro_trends =
  btc_current_price :: "real option"
  btc_ath :: "real option"
  eth_current_price :: "real option"
  eth_ath :: "real option"
  btc_dominance :: "real option"

text \<open>
  The historical data frame, as far as \<^verbatim>\<open>score_signal\<close> reads it: its volume column,
  absent for the empty frame \<^verbatim>\<open>pd.DataFrame()\<close> that a failed fetch returns.
\<close>

record dataframe =
  volume_column :: "real list option"

text \<open>\<^verbatim>\<open>config.SIGNAL_SCORING_WEIGHTS\<close>, one field per key.\<close>

record weights =
  w_rsi :: real
  w_ema_crossover :: real
  w_ema_price_position :: real
  w_bollinger_bands :: real
  w_volume_spike :: real
  w_fgi_sentiment :: real
  w_google_trends :: real
  w_btc_eth_ath_proximity :: real
  w_btc_dominance :: real

text \<open>The weights that \<^verbatim>\<open>config.py\<close> ships.\<close>

definition default_weights :: weights where
  "default_weights =
     \<lparr>w_rsi = 0.15, w_ema_crossover = 0.20, w_ema_price_position = 0.20,
      w_bollinger_bands = 0.10, w_volume_spike = 0.10, w_fgi_sentiment = 0.10,
      w_google_trends = 0.05, w_btc_eth_ath_proximity = 0.05, w_btc_dominance = 0.05\<rparr>"

definition no_indicators :: indicators where
  "no_indicators =
     \<lparr>price = None, volume = None, rsi = None, ema20 = None, ema50 = None, ema200 = None,
      bollinger_bands = BB_None, price_change_7d_percent = None,
      price_change_30d_percent = None\<rparr>"

definition no_sentiment :: sentiment where
  "no_sentiment = \<lparr>fgi_score = None, fgi_category = None, google_trends_interest = None\<rparr>"

definition no_macro_trends :: macro_trends where
  "no_macro_trends =
     \<lparr>btc_current_price = None, btc_ath = None, eth_current_price = None, eth_ath = None,
      btc_dominance = None\<rparr>"

section \<open>Composite scorer: \<^verbatim>\<open>score_signal\<close>\<close>

text \<open>
  The source threads one variable \<^verbatim>\<open>score\<close> through nine blocks. Each block is a
  function from the score before it to the score after it; \<open>score_signal\<close> composes
  them in the order of the source and clamps.
\<close>

definition score_rsi :: "weights \<Rightarrow> indicators \<Rightarrow> real \<Rightarrow> real" where
  "score_rsi w d score =
     (case rsi d of
        None \<Rightarrow> score
      | Some r \<Rightarrow>
          if r \<le> 50 then score + ((50 - r) * 0.5) * (w_rsi w * 100) / 25
          else score - ((r - 50) * 0.5) * (w_rsi w * 100) / 25)"

definition score_ema_crossover :: "weights \<Rightarrow> indicators \<Rightarrow> real \<Rightarrow> real" where
  "score_ema_crossover w d score =
     (case (ema20 d, ema50 d) of
        (Some e20, Some e50) \<Rightarrow>
          if e20 > e50 then score + 15 * w_ema_crossover w
          else if e20 < e50 then score - 15 * w_ema_crossover w
          else score
      | _ \<Rightarrow> score)"

definition score_ema_price_position :: "weights \<Rightarrow> indicators \<Rightarrow> real \<Rightarrow> real" where
  "score_ema_price_position w d score =
     (case (price d, ema20 d, ema50 d) of
        (Some p, Some e20, Some e50) \<Rightarrow>
          if p > e20 \<and> p > e50 then score + 10 * w_ema_price_position w
          else if p < e20 \<and> p < e50 then score - 10 * w_ema_price_position w
          else score
      | _ \<Rightarrow> score)"

definition score_bollinger :: "weights \<Rightarrow> indicators \<Rightarrow> real \<Rightarrow> real" where
  "score_bollinger w d score =
     (case bollinger_bands d of
        BB_Dict bb \<Rightarrow>
          (case (upper bb, lower bb, price d) of
             (Some up, Some lo, Some p) \<Rightarrow>
               (let range_bb = up - lo in
                if range_bb > 0 then
                  (let dist_from_lower = (p - lo) / range_bb;
                       dist_from_upper = (up - p) / range_bb
                   in if dist_from_lower < 0.1 then score + 15 * w_bollinger_bands w
                      else if dist_from_upper < 0.1 then score - 15 * w_bollinger_bands w
                      else score)
                else score)
           | _ \<Rightarrow> score)
      | _ \<Rightarrow> score)"

text \<open>
  \<^verbatim>\<open>historical_data['volume'].iloc[-20:].mean()\<close>: the mean of the last 20 entries (of all
  of them when there are fewer). The mean of no entries is NaN in pandas, and every
  comparison with NaN is false; here it is \<open>None\<close>.
\<close>

definition volume_sma20 :: "real list \<Rightarrow> real option" where
  "volume_sma20 vs =
     (let tl20 = drop (length vs - 20) vs
      in if tl20 = [] then None else Some (sum_list tl20 / real (length tl20)))"

definition score_volume :: "weights \<Rightarrow> real \<Rightarrow> indicators \<Rightarrow> dataframe option \<Rightarrow> real \<Rightarrow> real" where
  "score_volume w multiplier d historical_data score =
     (case (volume d, historical_data) of
        (Some v, Some df) \<Rightarrow>
          (case volume_column df of
             Some vs \<Rightarrow>
               (case volume_sma20 vs of
                  Some sma \<Rightarrow>
                    if sma > 0 then
                      (if v > sma * multiplier then score + 10 * w_volume_spike w else score)
                    else score
                | None \<Rightarrow> score)
           | None \<Rightarrow> if v > 1000000000 then score + 5 * w_volume_spike w else score)
      | (Some v, None) \<Rightarrow> if v > 1000000000 then score + 5 * w_volume_spike w else score
      | (None, _) \<Rightarrow> score)"

definition score_fgi :: "weights \<Rightarrow> sentiment \<Rightarrow> real \<Rightarrow> real" where
  "score_fgi w s score =
     (case fgi_score s of
        None \<Rightarrow> score
      | Some f \<Rightarrow>
          if f \<le> 20 then score + 15 * w_fgi_sentiment w
          else if f \<le> 40 then score + 5 * w_fgi_sentiment w
          else if f \<ge> 80 then score - 15 * w_fgi_sentiment w
          else if f \<ge> 60 then score - 5 * w_fgi_sentiment w
          else score)"

definition score_google_trends :: "weights \<Rightarrow> sentiment \<Rightarrow> real \<Rightarrow> real" where
  "score_google_trends w s score =
     (case google_trends_interest s of
        None \<Rightarrow> score
      | Some g \<Rightarrow>
          if g \<ge> 70 then score + 10 * w_google_trends w
          else if g \<ge> 50 then score + 5 * w_google_trends w
          else if g \<le> 30 then score - 5 * w_google_trends w
          else score)"

definition score_ath_proximity :: "weights \<Rightarrow> real option \<Rightarrow> real option \<Rightarrow> real \<Rightarrow> real" where
  "score_ath_proximity w cur ath score =
     (case (cur, ath) of
        (Some p, Some a) \<Rightarrow>
          if a > 0 then
            (let proximity = (p / a) * 100
             in if proximity \<ge> 98 then score + 10 * w_btc_eth_ath_proximity w
                else if proximity \<ge> 90 then score + 5 * w_btc_eth_ath_proximity w
                else score)
          else score
      | _ \<Rightarrow> score)"

definition score_btc_dominance :: "weights \<Rightarrow> macro_trends \<Rightarrow> real \<Rightarrow> real" where
  "score_btc_dominance w m score =
     (case btc_dominance m of
        None \<Rightarrow> score
      | Some dominance \<Rightarrow>
          if dominance < 50 then score + 10 * w_btc_dominance w
          else if dominance > 60 then score - 10 * w_btc_dominance w
          else score)"

text \<open>
  \<open>w\<close> is \<^verbatim>\<open>config.SIGNAL_SCORING_WEIGHTS\<close> and \<open>multiplier\<close> is
  \<^verbatim>\<open>config.VOLUME_SPIKE_MULTIPLIER\<close>, the two module-level values the function reads.
\<close>

definition score_signal ::
  "weights \<Rightarrow> real \<Rightarrow> indicators \<Rightarrow> sentiment \<Rightarrow> macro_trends \<Rightarrow> dataframe option \<Rightarrow> real" where
  "score_signal w multiplier d s m historical_data =
     (let score = 50;
          score = score_rsi w d score;
          score = score_ema_crossover w d score;
          score = score_ema_price_position w d score;
          score = score_bollinger w d score;
          score = score_volume w multiplier d historical_data score;
          score = score_fgi w s score;
          score = score_google_trends w s score;
          score = score_ath_proximity w (btc_current_price m) (btc_ath m) score;
          score = score_ath_proximity w (eth_current_price m) (eth_ath m) score;
          score = score_btc_dominance w m score
      in max 0 (min 100 score))"

section \<open>Errors\<close>

text \<open>
  The exceptions the modelled code can raise. A function that can raise returns
  \<open>py_error + 'a\<close>, with \<open>Inl\<close> for the exception.
\<close>

datatype py_error = TypeError | AttributeError | ZeroDivisionError | ValueError

section \<open>Top detection: \<^verbatim>\<open>check_for_top_detection\<close>\<close>

text \<open>
  The log line of the firing branch formats RSI, price / EMA200 and both changes; all of
  them are present and EMA200 is positive whenever that branch is reached, so the
  function cannot raise and returns its pair directly.
\<close>

definition is_rsi_overbought :: "indicators \<Rightarrow> bool" where
  "is_rsi_overbought d = (case rsi d of None \<Rightarrow> False | Some r \<Rightarrow> r > 80)"

definition is_above_ema200 :: "indicators \<Rightarrow> bool" where
  "is_above_ema200 d =
     (case (price d, ema200 d) of
        (Some p, Some e) \<Rightarrow> if e > 0 then (p / e) \<ge> 1.50 else False
      | _ \<Rightarrow> False)"

text \<open>The pair (\<^verbatim>\<open>is_parabolic\<close>, \<^verbatim>\<open>parabolic_factor\<close>) after the third block.\<close>

definition parabolic :: "indicators \<Rightarrow> bool \<times> real" where
  "parabolic d =
     (case (price_change_7d_percent d, price_change_30d_percent d) of
        (Some c7, Some c30) \<Rightarrow>
          if c7 > 50 \<and> c30 > 100 then (True, (c7 + c30) / 200) else (False, 0)
      | _ \<Rightarrow> (False, 0))"

definition is_fgi_extreme_greed :: "sentiment \<Rightarrow> bool" where
  "is_fgi_extreme_greed s = (case fgi_score s of None \<Rightarrow> False | Some f \<Rightarrow> f \<ge> 80)"

definition check_for_top_detection :: "indicators \<Rightarrow> sentiment \<Rightarrow> bool \<times> real" where
  "check_for_top_detection d s =
     (let (is_parabolic, parabolic_factor) = parabolic d
      in if is_rsi_overbought d \<and> is_above_ema200 d \<and> is_parabolic then
           (if is_fgi_extreme_greed s then (True, parabolic_factor)
            else (True, parabolic_factor))
         else (False, 0))"

text \<open>
  The firing condition in the words of the specification: RSI above 80, price at least
  1.5 times EMA200, 7-sample change above 50 and 30-sample change above 100. It is
  compared with the code below.
\<close>

definition spec_top_condition :: "indicators \<Rightarrow> bool" where
  "spec_top_condition d =
     (case (rsi d, price d, ema200 d, price_change_7d_percent d, price_change_30d_percent d) of
        (Some r, Some p, Some e, Some c7, Some c30) \<Rightarrow>
          r > 80 \<and> p \<ge> 1.5 * e \<and> c7 > 50 \<and> c30 > 100
      | _ \<Rightarrow> False)"

section \<open>Dip buy: \<^verbatim>\<open>check_for_dip_buy\<close>\<close>

definition is_rsi_oversold :: "indicators \<Rightarrow> bool" where
  "is_rsi_oversold d = (case rsi d of None \<Rightarrow> False | Some r \<Rightarrow> r < 40)"

definition is_near_emas :: "indicators \<Rightarrow> bool" where
  "is_near_emas d =
     (case (price d, ema20 d, ema50 d) of
        (Some p, Some e20, Some e50) \<Rightarrow>
          ((p \<le> e20 * 1.05 \<and> p \<ge> e20 * 0.95) \<or> (p \<le> e50 * 1.05 \<and> p \<ge> e50 * 0.95))
          \<or> (p < e20 \<and> p < e50)
      | _ \<Rightarrow> False)"

definition is_near_bb_lower :: "indicators \<Rightarrow> real option \<Rightarrow> bool" where
  "is_near_bb_lower d bb_lower =
     (case (price d, bb_lower) of
        (Some p, Some lo) \<Rightarrow> lo > 0 \<and> p \<le> lo * 1.02
      | _ \<Rightarrow> False)"

definition is_recent_dip :: "indicators \<Rightarrow> bool" where
  "is_recent_dip d =
     (case price_change_7d_percent d of None \<Rightarrow> False | Some c \<Rightarrow> c < 0 \<and> c > -20)"

definition is_fgi_fearful :: "sentiment \<Rightarrow> bool" where
  "is_fgi_fearful s = (case fgi_score s of None \<Rightarrow> False | Some f \<Rightarrow> f \<le> 40)"

definition conditions_met :: "indicators \<Rightarrow> real option \<Rightarrow> sentiment \<Rightarrow> nat" where
  "conditions_met d bb_lower s =
     (if is_rsi_oversold d then 1 else 0) + (if is_near_emas d then 1 else 0)
     + (if is_near_bb_lower d bb_lower then 1 else 0) + (if is_recent_dip d then 1 else 0)
     + (if is_fgi_fearful s then 1 else 0)"

text \<open>
  The log line of the firing branch,
  \<^verbatim>\<open>f"... RSI ({rsi:.2f}), Price/EMA20 ({price/ema20:.2f}x), BB Lower ({bb_lower:.2f}),
  7D Change ({price_change_7d:.2f}%), FGI ({fgi_score:.1f})."\<close>,
  evaluates its fields from left to right. Formatting \<^verbatim>\<open>None\<close> with a float format and
  dividing with \<^verbatim>\<open>None\<close> raise TypeError, dividing by zero raises ZeroDivisionError.
  \<open>None\<close> is "the line was printed".
\<close>

definition dip_buy_log :: "indicators \<Rightarrow> real option \<Rightarrow> sentiment \<Rightarrow> py_error option" where
  "dip_buy_log d bb_lower s =
     (if rsi d = None then Some TypeError
      else if price d = None \<or> ema20 d = None then Some TypeError
      else if ema20 d = Some 0 then Some ZeroDivisionError
      else if bb_lower = None then Some TypeError
      else if price_change_7d_percent d = None then Some TypeError
      else if fgi_score s = None then Some TypeError
      else None)"

text \<open>
  \<^verbatim>\<open>bb = data.get('bollinger_bands', {})\<close> followed by \<^verbatim>\<open>bb.get('lower')\<close>: the default
  applies to a missing key only, so a stored \<^verbatim>\<open>None\<close> raises AttributeError.
\<close>

definition get_bb_lower :: "indicators \<Rightarrow> py_error + real option" where
  "get_bb_lower d =
     (case bollinger_bands d of
        BB_Missing \<Rightarrow> Inr None
      | BB_None \<Rightarrow> Inl AttributeError
      | BB_Dict bb \<Rightarrow> Inr (lower bb))"

definition check_for_dip_buy :: "indicators \<Rightarrow> sentiment \<Rightarrow> py_error + bool" where
  "check_for_dip_buy d s =
     (case get_bb_lower d of
        Inl e \<Rightarrow> Inl e
      | Inr bb_lower \<Rightarrow>
          if conditions_met d bb_lower s \<ge> 3 then
            (case dip_buy_log d bb_lower s of Some e \<Rightarrow> Inl e | None \<Rightarrow> Inr True)
          else Inr False)"

section \<open>Persistent detector state: \<^verbatim>\<open>state_manager\<close>\<close>

datatype ema_position = above | below

record agent_state =
  last_observed_dynamic_ath :: "coin \<rightharpoonup> real"
  last_ema50_position :: "coin \<rightharpoonup> ema_position"

definition get_dynamic_ath :: "agent_state \<Rightarrow> coin \<Rightarrow> real option" where
  "get_dynamic_ath st coin_id = last_observed_dynamic_ath st coin_id"

definition set_dynamic_ath :: "coin \<Rightarrow> real \<Rightarrow> agent_state \<Rightarrow> agent_state" where
  "set_dynamic_ath coin_id p st =
     st\<lparr>last_observed_dynamic_ath := (last_observed_dynamic_ath st)(coin_id \<mapsto> p)\<rparr>"

definition get_ema50_position :: "agent_state \<Rightarrow> coin \<Rightarrow> ema_position option" where
  "get_ema50_position st coin_id = last_ema50_position st coin_id"

definition set_ema50_position :: "coin \<Rightarrow> ema_position \<Rightarrow> agent_state \<Rightarrow> agent_state" where
  "set_ema50_position coin_id pos st =
     st\<lparr>last_ema50_position := (last_ema50_position st)(coin_id \<mapsto> pos)\<rparr>"

definition empty_state :: agent_state where
  "empty_state = \<lparr>last_observed_dynamic_ath = Map.empty, last_ema50_position = Map.empty\<rparr>"

section \<open>Trailing stop: \<^verbatim>\<open>check_for_trailing_stop\<close>\<close>

text \<open>One entry of \<^verbatim>\<open>config.TRAILING_STOP_ALERTS\<close>.\<close>

record trailing_stop_conf =
  percent_drop_from_ath :: "real option"
  close_below_50d_ema :: "bool option"

type_synonym trailing_stop_alerts = "coin \<rightharpoonup> trailing_stop_conf"

datatype stop_type = ATH_DROP | CLOSE_BELOW_EMA50

text \<open>The returned triple (\<^verbatim>\<open>triggered\<close>, \<^verbatim>\<open>type\<close>, \<^verbatim>\<open>value\<close>).\<close>

type_synonym stop_result = "bool \<times> stop_type option \<times> real"

text \<open>
  The block "Logic for Percentage Drop from Dynamic ATH", entered with a configured
  threshold: it returns the drop when the block returns from the function with
  \<^verbatim>\<open>ATH_DROP\<close>, \<open>None\<close> when control falls through to the EMA block, and the state.
\<close>

definition ath_drop_check :: "coin \<Rightarrow> real \<Rightarrow> real \<Rightarrow> agent_state \<Rightarrow> real option \<times> agent_state" where
  "ath_drop_check coin_id p percent_drop_threshold st =
     (let (current_dynamic_ath_for_coin, st1) =
            (case get_dynamic_ath st coin_id of
               None \<Rightarrow> (p, set_dynamic_ath coin_id p st)
             | Some a \<Rightarrow> (a, st))
      in if p > current_dynamic_ath_for_coin then (None, set_dynamic_ath coin_id p st1)
         else if current_dynamic_ath_for_coin > 0 then
           (let current_drop_percent =
                  ((current_dynamic_ath_for_coin - p) / current_dynamic_ath_for_coin) * 100
            in if current_drop_percent \<ge> percent_drop_threshold
               then (Some current_drop_percent, st1)
               else (None, st1))
         else (None, st1))"

text \<open>The block "Logic for Close Below 50D EMA" and the final return.\<close>

definition ema50_cross_check ::
  "trailing_stop_alerts \<Rightarrow> coin \<Rightarrow> real \<Rightarrow> real option \<Rightarrow> agent_state \<Rightarrow> stop_result \<times> agent_state" where
  "ema50_cross_check ts coin_id p ema50_opt st =
     (let close_below_ema_enabled =
            (case ts coin_id of None \<Rightarrow> None | Some c \<Rightarrow> close_below_50d_ema c)
      in case (close_below_ema_enabled, ema50_opt) of
           (Some True, Some e) \<Rightarrow>
             (let current_ema_position = (if p \<ge> e then above else below);
                  previous_ema_position = get_ema50_position st coin_id
              in if previous_ema_position = Some above \<and> current_ema_position = below
                 then ((True, Some CLOSE_BELOW_EMA50, e),
                       set_ema50_position coin_id current_ema_position st)
                 else ((False, None, 0), set_ema50_position coin_id current_ema_position st))
         | _ \<Rightarrow> ((False, None, 0), st))"

text \<open>
  \<open>ts\<close> is \<^verbatim>\<open>config.TRAILING_STOP_ALERTS\<close>. The argument \<^verbatim>\<open>global_ath\<close> is kept although
  the function never reads it.
\<close>

definition check_for_trailing_stop ::
  "trailing_stop_alerts \<Rightarrow> coin \<Rightarrow> indicators \<Rightarrow> real option \<Rightarrow> agent_state
     \<Rightarrow> stop_result \<times> agent_state" where
  "check_for_trailing_stop ts coin_id d global_ath st =
     (case price d of
        None \<Rightarrow> ((False, None, 0), st)
      | Some p \<Rightarrow>
          (let percent_drop_threshold =
                 (case ts coin_id of None \<Rightarrow> None | Some c \<Rightarrow> percent_drop_from_ath c)
           in case percent_drop_threshold of
                None \<Rightarrow> ema50_cross_check ts coin_id p (ema50 d) st
              | Some th \<Rightarrow>
                  (case ath_drop_check coin_id p th st of
                     (Some current_drop_percent, st1) \<Rightarrow>
                       ((True, Some ATH_DROP, current_drop_percent), st1)
                   | (None, st1) \<Rightarrow> ema50_cross_check ts coin_id p (ema50 d) st1)))"

text \<open>A sequence of calls, each with its coin and its data, threading the state.\<close>

fun run_trailing_stop ::
  "trailing_stop_alerts \<Rightarrow> (coin \<times> indicators \<times> real option) list \<Rightarrow> agent_state \<Rightarrow> agent_state" where
  "run_trailing_stop ts [] st = st"
| "run_trailing_stop ts ((coin_id, d, global_ath) # calls) st =
     run_trailing_stop ts calls (snd (check_for_trailing_stop ts coin_id d global_ath st))"

text \<open>The dynamic ATH stored for a coin after each call of a sequence.\<close>

fun dynamic_ath_trace ::
  "trailing_stop_alerts \<Rightarrow> coin \<Rightarrow> (coin \<times> indicators \<times> real option) list \<Rightarrow> agent_state
     \<Rightarrow> real option list" where
  "dynamic_ath_trace ts c [] st = []"
| "dynamic_ath_trace ts c ((coin_id, d, global_ath) # calls) st =
     (let st1 = snd (check_for_trailing_stop ts coin_id d global_ath st)
      in get_dynamic_ath st1 c # dynamic_ath_trace ts c calls st1)"

text \<open>Data with a price (and optionally an EMA50) and nothing else.\<close>

definition price_only :: "real \<Rightarrow> real option \<Rightarrow> indicators" where
  "price_only p e = no_indicators\<lparr>price := Some p, ema50 := e\<rparr>"

section \<open>Alert gate and senders: \<^verbatim>\<open>discord_alert\<close>\<close>

text \<open>
  Time is the reading of \<^verbatim>\<open>datetime.now()\<close> in seconds, passed in as \<open>current_time\<close>.
  Every sender starts with the same cooldown test on its own dictionary:
  \<^verbatim>\<open>if key in last_times: if (current_time - last_times[key]).total_seconds() / 3600 < cooldown_hours: return False\<close>.
\<close>

definition on_cooldown :: "('k \<rightharpoonup> real) \<Rightarrow> 'k \<Rightarrow> real \<Rightarrow> real \<Rightarrow> bool" where
  "on_cooldown last_times key current_time cooldown_hours =
     (case last_times key of
        None \<Rightarrow> False
      | Some t \<Rightarrow>
          (let time_since_last_alert = (current_time - t) / 3600
           in time_since_last_alert < cooldown_hours))"

text \<open>
  \<^verbatim>\<open>_send_discord_message\<close>: \<open>http_ok\<close> is the answer of the network, true when
  \<^verbatim>\<open>requests.post\<close> and \<^verbatim>\<open>raise_for_status\<close> raise nothing. The result is the
  success of the dispatch.
\<close>

definition send_discord_message :: "string \<Rightarrow> bool \<Rightarrow> bool" where
  "send_discord_message webhook_url http_ok =
     (if webhook_url = [] \<or> webhook_url = ''YOUR_DISCORD_WEBHOOK_URL_HERE'' then False
      else http_ok)"

text \<open>One entry of \<^verbatim>\<open>config.PRICE_ALERTS\<close>.\<close>

record price_targets =
  buy :: "real option"
  sell :: "real option"

text \<open>The settings of \<^verbatim>\<open>config.py\<close> that the senders read.\<close>

record config =
  DISCORD_WEBHOOK_URL :: string
  ALERT_SCORE_THRESHOLD :: real
  ALERT_COOLDOWN_HOURS :: real
  PRICE_ALERTS :: "coin \<rightharpoonup> price_targets"
  PRICE_ALERT_COOLDOWN_HOURS :: real
  PROFIT_TAKING_ALERT_COOLDOWN_HOURS :: real
  TRAILING_STOP_ALERTS :: trailing_stop_alerts
  TRAILING_STOP_ALERT_COOLDOWN_HOURS :: real

text \<open>
  The key of a trailing-stop alert: \<^verbatim>\<open>coin_id\<close>,
  \<^verbatim>\<open>(coin_id, f"ATH_DROP_{drop_percent}")\<close> or \<^verbatim>\<open>(coin_id, "CLOSE_BELOW_EMA50")\<close>. The
  second holds the decimal text of the number, which differs for different numbers, so
  the number itself stands for it.
\<close>

datatype trailing_stop_key =
  Key_Coin coin | Key_ATH_DROP coin real | Key_CLOSE_BELOW_EMA50 coin

text \<open>The six module-level dictionaries of last alert times.\<close>

record alert_times =
  last_signal_alert_times :: "coin \<rightharpoonup> real"
  last_price_alert_times :: "coin \<rightharpoonup> real"
  last_top_detection_alert_times :: "coin \<rightharpoonup> real"
  last_dip_buy_alert_times :: "coin \<rightharpoonup> real"
  last_profit_taking_alert_times :: "(coin \<times> real) \<rightharpoonup> real"
  last_trailing_stop_alert_times :: "trailing_stop_key \<rightharpoonup> real"

definition no_alert_times :: alert_times where
  "no_alert_times =
     \<lparr>last_signal_alert_times = Map.empty, last_price_alert_times = Map.empty,
      last_top_detection_alert_times = Map.empty, last_dip_buy_alert_times = Map.empty,
      last_profit_taking_alert_times = Map.empty,
      last_trailing_stop_alert_times = Map.empty\<rparr>"

text \<open>The argument \<^verbatim>\<open>details\<close> of \<^verbatim>\<open>send_discord_alert\<close>, as the main loop builds it.\<close>

record details =
  details_data :: indicators
  details_sentiment :: sentiment

text \<open>
  A sender returns what the call returns or raises, and the dictionaries after it.
  An exception leaves them as they were.
\<close>

type_synonym send_result = "(py_error + bool) \<times> alert_times"

text \<open>
  Building the Bollinger fields of the signal alert:
  \<^verbatim>\<open>bb = details.get('data', {}).get('bollinger_bands', {})\<close>, then
  \<^verbatim>\<open>if bb.get('upper') is not None\<close> formats all three values.
\<close>

definition signal_alert_fields :: "details \<Rightarrow> py_error option" where
  "signal_alert_fields det =
     (case bollinger_bands (details_data det) of
        BB_Missing \<Rightarrow> None
      | BB_None \<Rightarrow> Some AttributeError
      | BB_Dict bb \<Rightarrow>
          if upper bb \<noteq> None \<and> (middle bb = None \<or> lower bb = None) then Some TypeError
          else None)"

definition send_discord_alert ::
  "config \<Rightarrow> coin \<Rightarrow> real \<Rightarrow> details \<Rightarrow> real \<Rightarrow> bool \<Rightarrow> alert_times \<Rightarrow> send_result" where
  "send_discord_alert cfg coin_id score det current_time http_ok lt =
     (if on_cooldown (last_signal_alert_times lt) coin_id current_time (ALERT_COOLDOWN_HOURS cfg)
      then (Inr False, lt)
      else if score < ALERT_SCORE_THRESHOLD cfg then (Inr False, lt)
      else case signal_alert_fields det of
             Some e \<Rightarrow> (Inl e, lt)
           | None \<Rightarrow>
               if send_discord_message (DISCORD_WEBHOOK_URL cfg) http_ok
               then (Inr True,
                     lt\<lparr>last_signal_alert_times :=
                          (last_signal_alert_times lt)(coin_id \<mapsto> current_time)\<rparr>)
               else (Inr False, lt))"

text \<open>
  \<^verbatim>\<open>check_price_alerts\<close>. An empty target dictionary and a missing one both return
  at once; a dictionary with neither target sends nothing either.
\<close>

definition check_price_alerts ::
  "config \<Rightarrow> coin \<Rightarrow> real \<Rightarrow> real \<Rightarrow> bool \<Rightarrow> alert_times \<Rightarrow> send_result" where
  "check_price_alerts cfg coin_id current_price current_time http_ok lt =
     (case PRICE_ALERTS cfg coin_id of
        None \<Rightarrow> (Inr False, lt)
      | Some targets \<Rightarrow>
          if on_cooldown (last_price_alert_times lt) coin_id current_time
               (PRICE_ALERT_COOLDOWN_HOURS cfg)
          then (Inr False, lt)
          else
            (let alert_type =
                   (if (case buy targets of Some b \<Rightarrow> current_price \<le> b | None \<Rightarrow> False)
                    then Some ''BUY''
                    else if (case sell targets of Some sl \<Rightarrow> current_price \<ge> sl | None \<Rightarrow> False)
                    then Some ''SELL''
                    else None)
             in case alert_type of
                  None \<Rightarrow> (Inr False, lt)
                | Some _ \<Rightarrow>
                    if send_discord_message (DISCORD_WEBHOOK_URL cfg) http_ok
                    then (Inr True,
                          lt\<lparr>last_price_alert_times :=
                               (last_price_alert_times lt)(coin_id \<mapsto> current_time)\<rparr>)
                    else (Inr False, lt)))"

text \<open>
  \<^verbatim>\<open>send_top_detection_alert\<close> formats \<^verbatim>\<open>rsi\<close> and \<^verbatim>\<open>ema200\<close> unguarded; the main loop
  passes \<^verbatim>\<open>coin_data.get('rsi')\<close> and \<^verbatim>\<open>coin_data.get('ema200')\<close>.
\<close>

definition send_top_detection_alert ::
  "config \<Rightarrow> coin \<Rightarrow> real \<Rightarrow> real option \<Rightarrow> real option \<Rightarrow> real \<Rightarrow> real \<Rightarrow> bool
     \<Rightarrow> alert_times \<Rightarrow> send_result" where
  "send_top_detection_alert cfg coin_id p rsi_opt ema200_opt parabolic_factor current_time http_ok lt =
     (if on_cooldown (last_top_detection_alert_times lt) coin_id current_time
           (ALERT_COOLDOWN_HOURS cfg)
      then (Inr False, lt)
      else if rsi_opt = None \<or> ema200_opt = None then (Inl TypeError, lt)
      else if send_discord_message (DISCORD_WEBHOOK_URL cfg) http_ok
      then (Inr True,
            lt\<lparr>last_top_detection_alert_times :=
                 (last_top_detection_alert_times lt)(coin_id \<mapsto> current_time)\<rparr>)
      else (Inr False, lt))"

text \<open>
  \<^verbatim>\<open>send_dip_buy_alert\<close> formats \<^verbatim>\<open>rsi\<close> and \<^verbatim>\<open>ema20\<close> unguarded and guards
  \<^verbatim>\<open>bb_lower\<close> and \<^verbatim>\<open>price_change_7d\<close>.
\<close>

definition send_dip_buy_alert ::
  "config \<Rightarrow> coin \<Rightarrow> real \<Rightarrow> real option \<Rightarrow> real option \<Rightarrow> real option \<Rightarrow> real option \<Rightarrow> real
     \<Rightarrow> bool \<Rightarrow> alert_times \<Rightarrow> send_result" where
  "send_dip_buy_alert cfg coin_id p rsi_opt ema20_opt bb_lower price_change_7d current_time http_ok lt =
     (if on_cooldown (last_dip_buy_alert_times lt) coin_id current_time (ALERT_COOLDOWN_HOURS cfg)
      then (Inr False, lt)
      else if rsi_opt = None \<or> ema20_opt = None then (Inl TypeError, lt)
      else if send_discord_message (DISCORD_WEBHOOK_URL cfg) http_ok
      then (Inr True,
            lt\<lparr>last_dip_buy_alert_times :=
                 (last_dip_buy_alert_times lt)(coin_id \<mapsto> current_time)\<rparr>)
      else (Inr False, lt))"

definition send_profit_taking_alert ::
  "config \<Rightarrow> coin \<Rightarrow> real \<Rightarrow> real \<Rightarrow> real \<Rightarrow> real \<Rightarrow> real \<Rightarrow> bool \<Rightarrow> alert_times \<Rightarrow> send_result" where
  "send_profit_taking_alert cfg coin_id current_price target_price sell_percentage
       current_holdings_quantity current_time http_ok lt =
     (let alert_key = (coin_id, target_price)
      in if on_cooldown (last_profit_taking_alert_times lt) alert_key current_time
              (PROFIT_TAKING_ALERT_COOLDOWN_HOURS cfg)
         then (Inr False, lt)
         else if send_discord_message (DISCORD_WEBHOOK_URL cfg) http_ok
         then (Inr True,
               lt\<lparr>last_profit_taking_alert_times :=
                    (last_profit_taking_alert_times lt)(alert_key \<mapsto> current_time)\<rparr>)
         else (Inr False, lt))"

definition trailing_stop_alert_key :: "coin \<Rightarrow> real option \<Rightarrow> bool \<Rightarrow> trailing_stop_key" where
  "trailing_stop_alert_key coin_id drop_percent close_below_ema =
     (case drop_percent of
        Some dp \<Rightarrow> Key_ATH_DROP coin_id dp
      | None \<Rightarrow> if close_below_ema then Key_CLOSE_BELOW_EMA50 coin_id else Key_Coin coin_id)"

definition send_trailing_stop_alert ::
  "config \<Rightarrow> coin \<Rightarrow> real \<Rightarrow> real option \<Rightarrow> real option \<Rightarrow> real option \<Rightarrow> bool \<Rightarrow> real \<Rightarrow> bool
     \<Rightarrow> alert_times \<Rightarrow> send_result" where
  "send_trailing_stop_alert cfg coin_id p ath drop_percent ema50_opt close_below_ema
       current_time http_ok lt =
     (let alert_key = trailing_stop_alert_key coin_id drop_percent close_below_ema
      in if on_cooldown (last_trailing_stop_alert_times lt) alert_key current_time
              (TRAILING_STOP_ALERT_COOLDOWN_HOURS cfg)
         then (Inr False, lt)
         else if send_discord_message (DISCORD_WEBHOOK_URL cfg) http_ok
         then (Inr True,
               lt\<lparr>last_trailing_stop_alert_times :=
                    (last_trailing_stop_alert_times lt)(alert_key \<mapsto> current_time)\<rparr>)
         else (Inr False, lt))"

section \<open>Step 5 of the main loop: detect, then notify\<close>

text \<open>
  \<^verbatim>\<open>run_signal_analysis_loop\<close> calls \<^verbatim>\<open>check_for_trailing_stop\<close> and, when it
  triggers, \<^verbatim>\<open>send_trailing_stop_alert\<close> with the returned value as \<^verbatim>\<open>drop_percent\<close>
  (for \<^verbatim>\<open>ATH_DROP\<close>) or as \<^verbatim>\<open>ema50\<close>. The step returns the detector's triple, whether a
  notification was sent (\<^verbatim>\<open>trailing_stop_alert_sent_for_this_run\<close>, or the exception), and
  both states.
\<close>

definition trailing_stop_step ::
  "config \<Rightarrow> coin \<Rightarrow> indicators \<Rightarrow> real option \<Rightarrow> real \<Rightarrow> bool \<Rightarrow> agent_state \<times> alert_times
     \<Rightarrow> (stop_result \<times> (py_error + bool)) \<times> agent_state \<times> alert_times" where
  "trailing_stop_step cfg coin_id d coin_ath_historical current_time http_ok sl =
     (case sl of (st, lt) \<Rightarrow>
        (case price d of
           None \<Rightarrow> (((False, None, 0), Inr False), st, lt)
         | Some current_price \<Rightarrow>
             (case check_for_trailing_stop (TRAILING_STOP_ALERTS cfg) coin_id d
                     coin_ath_historical st of
                ((is_trailing_stop, stop_ty, v), st1) \<Rightarrow>
                  if is_trailing_stop then
                    (if stop_ty = Some ATH_DROP then
                       (case send_trailing_stop_alert cfg coin_id current_price
                               coin_ath_historical (Some v) None False current_time http_ok lt of
                          (sent, lt1) \<Rightarrow> (((is_trailing_stop, stop_ty, v), sent), st1, lt1))
                     else if stop_ty = Some CLOSE_BELOW_EMA50 then
                       (case send_trailing_stop_alert cfg coin_id current_price
                               None None (Some v) True current_time http_ok lt of
                          (sent, lt1) \<Rightarrow> (((is_trailing_stop, stop_ty, v), sent), st1, lt1))
                     else (((is_trailing_stop, stop_ty, v), Inr False), st1, lt))
                  else (((is_trailing_stop, stop_ty, v), Inr False), st1, lt))))"

section \<open>Indicator library: \<^verbatim>\<open>data_fetcher\<close>\<close>

text \<open>
  A price series is the list of its values, the window a natural number (the callers
  pass 14, 20, 50 and 200).
  \<^verbatim>\<open>series.ewm(..., adjust=False).mean()\<close> is the recursion \<open>y\<^sub>0 = x\<^sub>0\<close>,
  \<open>y\<^sub>t = (1 - \<alpha>) y\<^sub>t\<^sub>-\<^sub>1 + \<alpha> x\<^sub>t\<close>; only its last value is read.
\<close>

fun ewm_from :: "real \<Rightarrow> real \<Rightarrow> real list \<Rightarrow> real" where
  "ewm_from alpha y [] = y"
| "ewm_from alpha y (x # xs) = ewm_from alpha ((1 - alpha) * y + alpha * x) xs"

definition ewm_mean_last :: "real \<Rightarrow> real list \<Rightarrow> real option" where
  "ewm_mean_last alpha xs = (case xs of [] \<Rightarrow> None | x # rest \<Rightarrow> Some (ewm_from alpha x rest))"

text \<open>\<^verbatim>\<open>prices.diff()\<close>: the first entry is NaN, here \<open>None\<close>.\<close>

definition diff :: "real list \<Rightarrow> real option list" where
  "diff xs = (case xs of [] \<Rightarrow> [] | x # rest \<Rightarrow> None # map2 (\<lambda>a b. Some (b - a)) xs rest)"

text \<open>
  \<^verbatim>\<open>delta.where(delta > 0, 0)\<close> and \<^verbatim>\<open>-delta.where(delta < 0, 0)\<close>: the comparison
  with NaN is false, so the first entry becomes 0.
\<close>

definition gain_of :: "real option \<Rightarrow> real" where
  "gain_of dl = (case dl of Some v \<Rightarrow> if v > 0 then v else 0 | None \<Rightarrow> 0)"

definition loss_of :: "real option \<Rightarrow> real" where
  "loss_of dl = (case dl of Some v \<Rightarrow> if v < 0 then - v else 0 | None \<Rightarrow> 0)"

text \<open>
  \<^verbatim>\<open>_calculate_rsi\<close>. \<^verbatim>\<open>ewm(com=window - 1)\<close> has \<open>\<alpha> = 1 / (1 + com)\<close> and raises
  ValueError for a negative \<^verbatim>\<open>com\<close>. An average loss of zero makes the relative
  strength infinite and the RSI 100.
\<close>

definition calculate_rsi :: "real list \<Rightarrow> nat \<Rightarrow> py_error + real option" where
  "calculate_rsi prices window =
     (if length prices < window + 1 then Inr None
      else if window = 0 then Inl ValueError
      else
        (let delta = diff prices;
             gain = map gain_of delta;
             loss = map loss_of delta;
             alpha = 1 / (1 + (real window - 1))
         in case (ewm_mean_last alpha gain, ewm_mean_last alpha loss) of
              (Some avg_gain, Some avg_loss) \<Rightarrow>
                if avg_loss = 0 then Inr (Some 100)
                else (let rs = avg_gain / avg_loss in Inr (Some (100 - (100 / (1 + rs)))))
            | _ \<Rightarrow> Inr None))"

text \<open>
  \<^verbatim>\<open>_calculate_ema\<close>. \<^verbatim>\<open>ewm(span=window)\<close> has \<open>\<alpha> = 2 / (span + 1)\<close> and raises
  ValueError for a span below 1.
\<close>

definition calculate_ema :: "real list \<Rightarrow> nat \<Rightarrow> py_error + real option" where
  "calculate_ema prices window =
     (if length prices < window then Inr None
      else if window = 0 then Inl ValueError
      else Inr (ewm_mean_last (2 / (real window + 1)) prices))"

text \<open>
  \<^verbatim>\<open>_calculate_bollinger_bands\<close>. The last value of \<^verbatim>\<open>rolling(window).mean()\<close> is the
  mean of the last \<^verbatim>\<open>window\<close> prices, that of \<^verbatim>\<open>rolling(window).std()\<close> their sample
  standard deviation (divisor \<^verbatim>\<open>window - 1\<close>). For a window of 0 the mean, and for a window
  below 2 the deviation, is NaN; such an entry is \<open>None\<close> here.
\<close>

definition rolling_mean_last :: "real list \<Rightarrow> nat \<Rightarrow> real option" where
  "rolling_mean_last xs window =
     (if window = 0 then None
      else Some (sum_list (drop (length xs - window) xs) / real window))"

definition rolling_std_last :: "real list \<Rightarrow> nat \<Rightarrow> real option" where
  "rolling_std_last xs window =
     (if window < 2 then None
      else
        (let win = drop (length xs - window) xs;
             mean = sum_list win / real window
         in Some (sqrt (sum_list (map (\<lambda>x. (x - mean)\<^sup>2) win) / (real window - 1)))))"

definition calculate_bollinger_bands :: "real list \<Rightarrow> nat \<Rightarrow> real \<Rightarrow> bands option" where
  "calculate_bollinger_bands prices window num_std_dev =
     (if length prices < window then None
      else if prices = [] then None
      else
        (let sma = rolling_mean_last prices window;
             std_dev = rolling_std_last prices window;
             upper_band = (case (sma, std_dev) of
                             (Some m, Some sd) \<Rightarrow> Some (m + (sd * num_std_dev)) | _ \<Rightarrow> None);
             lower_band = (case (sma, std_dev) of
                             (Some m, Some sd) \<Rightarrow> Some (m - (sd * num_std_dev)) | _ \<Rightarrow> None)
         in Some \<lparr>upper = upper_band, middle = sma, lower = lower_band\<rparr>))"

section \<open>Inputs and predicates for the properties\<close>

text \<open>
  The inputs of the module's own test: \<^verbatim>\<open>sample_data_top\<close>,
  \<^verbatim>\<open>sample_sentiment_top\<close> and \<^verbatim>\<open>sample_macro_trends\<close>.
\<close>

definition sample_data_top :: indicators where
  "sample_data_top =
     \<lparr>price = Some 250, volume = Some 5000000000, rsi = Some 88, ema20 = Some 220,
      ema50 = Some 180, ema200 = Some 100,
      bollinger_bands = BB_Dict \<lparr>upper = Some 240, middle = Some 200, lower = Some 160\<rparr>,
      price_change_7d_percent = Some 60, price_change_30d_percent = Some 120\<rparr>"

definition sample_sentiment_top :: sentiment where
  "sample_sentiment_top =
     \<lparr>fgi_score = Some 85, fgi_category = Some ''Extreme Greed'',
      google_trends_interest = Some 90\<rparr>"

definition sample_macro_trends :: macro_trends where
  "sample_macro_trends =
     \<lparr>btc_current_price = Some 70000, btc_ath = Some 72000, eth_current_price = Some 4000,
      eth_ath = Some 4100, btc_dominance = Some 48\<rparr>"

text \<open>The guard \<^verbatim>\<open>ema200 > 0\<close> of the second condition.\<close>

definition ema200_positive :: "indicators \<Rightarrow> bool" where
  "ema200_positive d = (case ema200 d of None \<Rightarrow> False | Some e \<Rightarrow> e > 0)"

text \<open>Data with RSI 88, price 10, an EMA200 of 0 and changes of 60 and 120 percent.\<close>

definition top_zero_ema200 :: indicators where
  "top_zero_ema200 =
     no_indicators\<lparr>rsi := Some 88, price := Some 10, ema200 := Some 0,
       price_change_7d_percent := Some 60, price_change_30d_percent := Some 120\<rparr>"

text \<open>
  A configuration for the examples: the cooldowns, the score threshold and the Solana
  price targets of \<^verbatim>\<open>config.py\<close>, the trailing-stop settings of the test in
  \<^verbatim>\<open>signal_scoring.py\<close> (Solana: 25 percent drop, no EMA check; Chainlink: EMA check
  only), and a webhook address that is configured.
\<close>

definition example_config :: config where
  "example_config =
     \<lparr>DISCORD_WEBHOOK_URL = ''https://discord.example/api/webhooks/1'',
      ALERT_SCORE_THRESHOLD = 80,
      ALERT_COOLDOWN_HOURS = 6,
      PRICE_ALERTS = [''solana'' \<mapsto> \<lparr>buy = Some 130, sell = Some 230\<rparr>],
      PRICE_ALERT_COOLDOWN_HOURS = 6,
      PROFIT_TAKING_ALERT_COOLDOWN_HOURS = 24,
      TRAILING_STOP_ALERTS =
        [''solana'' \<mapsto> \<lparr>percent_drop_from_ath = Some 25, close_below_50d_ema = Some False\<rparr>,
         ''chainlink'' \<mapsto> \<lparr>percent_drop_from_ath = None, close_below_50d_ema = Some True\<rparr>],
      TRAILING_STOP_ALERT_COOLDOWN_HOURS = 48\<rparr>"

text \<open>The dictionaries with one signal alert for Solana recorded at time 0.\<close>

definition signal_fired_at_0 :: alert_times where
  "signal_fired_at_0 = no_alert_times\<lparr>last_signal_alert_times := [''solana'' \<mapsto> 0]\<rparr>"

definition sample_details :: details where
  "sample_details =
     \<lparr>details_data = sample_data_top, details_sentiment = sample_sentiment_top\<rparr>"

text \<open>
  What the cooldown invariant asks of one call of a sender with result \<open>r\<close>, where
  \<open>gated\<close> says that the cooldown test rejected the call, \<open>reached\<close> that control
  reached the dispatch (no earlier return and no exception), \<open>dispatched\<close> that the
  dispatch succeeds, \<open>lt\<close> is the dictionaries before the call and \<open>lt_written\<close> the
  same with the key set to the current time.
\<close>

definition ledger_written_iff_dispatched ::
  "bool \<Rightarrow> bool \<Rightarrow> bool \<Rightarrow> alert_times \<Rightarrow> alert_times \<Rightarrow> send_result \<Rightarrow> bool" where
  "ledger_written_iff_dispatched gated reached dispatched lt lt_written r =
     ((reached \<and> dispatched \<longrightarrow> r = (Inr True, lt_written))
      \<and> (\<not> (reached \<and> dispatched) \<longrightarrow> fst r \<noteq> Inr True \<and> snd r = lt)
      \<and> (gated \<longrightarrow> \<not> reached \<and> r = (Inr False, lt)))"

text \<open>Whether \<^verbatim>\<open>check_price_alerts\<close> finds a target reached.\<close>

definition price_target_hit :: "config \<Rightarrow> coin \<Rightarrow> real \<Rightarrow> bool" where
  "price_target_hit cfg coin_id current_price =
     (case PRICE_ALERTS cfg coin_id of
        None \<Rightarrow> False
      | Some targets \<Rightarrow>
          (case buy targets of Some b \<Rightarrow> current_price \<le> b | None \<Rightarrow> False)
          \<or> (case sell targets of Some sl \<Rightarrow> current_price \<ge> sl | None \<Rightarrow> False))"

text \<open>
  The order in which stored values of the dynamic ATH are compared: nothing stored is
  below every stored value.
\<close>

fun ath_le :: "real option \<Rightarrow> real option \<Rightarrow> bool" where
  "ath_le None _ = True"
| "ath_le (Some a) None = False"
| "ath_le (Some a) (Some b) = (a \<le> b)"

text \<open>\<^verbatim>\<open>config.TRAILING_STOP_ALERTS.get(coin_id, {}).get('percent_drop_from_ath')\<close>.\<close>

definition drop_threshold :: "trailing_stop_alerts \<Rightarrow> coin \<Rightarrow> real option" where
  "drop_threshold ts c =
     (case ts c of None \<Rightarrow> None | Some conf \<Rightarrow> percent_drop_from_ath conf)"

text \<open>
  Step 5 of the main loop run for one coin over a list of (price, time) observations;
  it collects what each step returns.
\<close>

fun run_trailing_stop_steps ::
  "config \<Rightarrow> coin \<Rightarrow> real option \<Rightarrow> bool \<Rightarrow> (real \<times> real) list \<Rightarrow> agent_state \<times> alert_times
     \<Rightarrow> (stop_result \<times> (py_error + bool)) list" where
  "run_trailing_stop_steps cfg coin_id g http_ok [] sl = []"
| "run_trailing_stop_steps cfg coin_id g http_ok ((p, t) # rest) sl =
     (case trailing_stop_step cfg coin_id (price_only p None) g t http_ok sl of
        (out, sl1) \<Rightarrow> out # run_trailing_stop_steps cfg coin_id g http_ok rest sl1)"

text \<open>A state in which the dynamic ATH stored for Solana is 270.\<close>

definition solana_ath_270 :: agent_state where
  "solana_ath_270 = empty_state\<lparr>last_observed_dynamic_ath := [''solana'' \<mapsto> 270]\<rparr>"

text \<open>
  The alert times after the notification for the drop of 700/27 percent (price 200), sent
  at 43200 s.
\<close>

definition after_200 :: alert_times where
  "after_200 =
     no_alert_times\<lparr>last_trailing_stop_alert_times :=
       [Key_ATH_DROP ''solana'' (700 / 27) \<mapsto> 43200]\<rparr>"

text \<open>\<^verbatim>\<open>TRAILING_STOP_ALERTS\<close> as \<^verbatim>\<open>config.py\<close> ships it.\<close>

definition shipped_trailing_stop_alerts :: trailing_stop_alerts where
  "shipped_trailing_stop_alerts =
     [''solana'' \<mapsto> \<lparr>percent_drop_from_ath = Some 20, close_below_50d_ema = Some True\<rparr>,
      ''chainlink'' \<mapsto> \<lparr>percent_drop_from_ath = Some 20, close_below_50d_ema = Some True\<rparr>,
      ''sui'' \<mapsto> \<lparr>percent_drop_from_ath = Some 25, close_below_50d_ema = Some True\<rparr>,
      ''sei-network'' \<mapsto> \<lparr>percent_drop_from_ath = Some 30, close_below_50d_ema = Some True\<rparr>]"

text \<open>A state with dynamic ATH 270 and last EMA50 position \<^verbatim>\<open>'above'\<close> for Solana.\<close>

definition solana_ath_270_above :: agent_state where
  "solana_ath_270_above =
     \<lparr>last_observed_dynamic_ath = [''solana'' \<mapsto> 270],
      last_ema50_position = [''solana'' \<mapsto> above]\<rparr>"

text \<open>
  Data with exactly three dip conditions (price near the EMAs, price near the lower band,
  a 7-sample change of -12 percent) and the sentiment of a failed FGI fetch.
\<close>

definition dip_three_no_fgi :: indicators where
  "dip_three_no_fgi =
     \<lparr>price = Some 120, volume = Some 800000000, rsi = Some 45, ema20 = Some 125,
      ema50 = Some 130, ema200 = Some 150,
      bollinger_bands = BB_Dict \<lparr>upper = Some 140, middle = Some 130, lower = Some 122\<rparr>,
      price_change_7d_percent = Some (-12), price_change_30d_percent = Some (-25)\<rparr>"

definition fgi_fetch_failed :: sentiment where
  "fgi_fetch_failed =
     \<lparr>fgi_score = None, fgi_category = Some ''Error'', google_trends_interest = Some 50\<rparr>"

text \<open>
  Data as \<^verbatim>\<open>fetch_data\<close> returns it for a series of 15 to 19 samples (RSI present, no
  EMA, Bollinger entry \<^verbatim>\<open>None\<close>) with exactly two dip conditions (RSI 32, FGI 35), and
  \<^verbatim>\<open>sample_sentiment_dip\<close> of the module's test.
\<close>

definition dip_two_no_bands :: indicators where
  "dip_two_no_bands =
     \<lparr>price = Some 120, volume = Some 800000000, rsi = Some 32, ema20 = None,
      ema50 = None, ema200 = None, bollinger_bands = BB_None,
      price_change_7d_percent = Some 3, price_change_30d_percent = None\<rparr>"

definition sample_sentiment_dip :: sentiment where
  "sample_sentiment_dip =
     \<lparr>fgi_score = Some 35, fgi_category = Some ''Fear'', google_trends_interest = Some 50\<rparr>"

section \<open>Properties of the composite scorer\<close>

lemma score_signal_range:
  "0 \<le> score_signal w k d s m h \<and> score_signal w k d s m h \<le> 100"
  by (simp add: score_signal_def Let_def)

lemma score_signal_all_absent:
  "score_signal w k (no_indicators\<lparr>bollinger_bands := bbf\<rparr>)
     (no_sentiment\<lparr>fgi_category := cat\<rparr>) no_macro_trends h = 50"
  by (simp add: score_signal_def score_rsi_def score_ema_crossover_def
      score_ema_price_position_def score_bollinger_def score_volume_def score_fgi_def
      score_google_trends_def score_ath_proximity_def score_btc_dominance_def
      no_indicators_def no_sentiment_def no_macro_trends_def
      split: bb_field.splits option.splits)

text \<open>
  C1. For every combination of weights, indicator, sentiment and macro dictionaries and
  optional history, \<open>score_signal\<close> returns a value between 0 and 100. When every
  optional field is absent (whatever the form of the absent Bollinger entry, the sentiment
  category and the history) it returns exactly 50. The result is a function of the
  arguments and the two configured values alone: equal inputs and equal configuration
  give equal results.
\<close>

theorem score_signal_bounded_neutral_deterministic:
  "(0 \<le> score_signal w k d s m h \<and> score_signal w k d s m h \<le> 100)
   \<and> score_signal w k (no_indicators\<lparr>bollinger_bands := bbf\<rparr>)
         (no_sentiment\<lparr>fgi_category := cat\<rparr>) no_macro_trends h = 50
   \<and> (w' = w \<and> k' = k \<and> d' = d \<and> s' = s \<and> m' = m \<and> h' = h
        \<longrightarrow> score_signal w' k' d' s' m' h' = score_signal w k d s m h)"
  using score_signal_range [of w k d s m h] score_signal_all_absent [of w k bbf cat h]
  by blast

text \<open>
  The theorem at the inputs of the module's own test with the shipped weights and
  multiplier: the score there is 42.6.
\<close>

theorem score_signal_bounded_neutral_deterministic_witness:
  "(default_weights = default_weights \<and> (1.5::real) = 1.5 \<and> sample_data_top = sample_data_top
      \<and> sample_sentiment_top = sample_sentiment_top
      \<and> sample_macro_trends = sample_macro_trends \<and> (None::dataframe option) = None)
   \<and> 0 \<le> score_signal default_weights 1.5 sample_data_top sample_sentiment_top
             sample_macro_trends None
   \<and> score_signal default_weights 1.5 sample_data_top sample_sentiment_top
        sample_macro_trends None \<le> 100
   \<and> score_signal default_weights 1.5 sample_data_top sample_sentiment_top
        sample_macro_trends None = 42.6
   \<and> score_signal default_weights 1.5 no_indicators no_sentiment no_macro_trends None = 50"
  using score_signal_bounded_neutral_deterministic
    [of default_weights "1.5" sample_data_top sample_sentiment_top sample_macro_trends None
        BB_None None default_weights "1.5" sample_data_top sample_sentiment_top
        sample_macro_trends None]
  by (simp add: no_indicators_def no_sentiment_def score_signal_def score_rsi_def
      score_ema_crossover_def score_ema_price_position_def score_bollinger_def
      score_volume_def score_fgi_def score_google_trends_def score_ath_proximity_def
      score_btc_dominance_def sample_data_top_def sample_sentiment_top_def
      sample_macro_trends_def default_weights_def)

lemma score_rsi_delta:
  "rsi d = Some r \<Longrightarrow> score_rsi w d score - score = 2 * w_rsi w * (50 - r)"
  by (simp add: score_rsi_def field_simps)

text \<open>
  C5 (as amended). When RSI is present with value \<open>r\<close> in [0, 100] and the RSI weight is
  not negative, the RSI block changes the score by \<open>2 \<times> weight \<times> (50 - r)\<close>: the
  magnitude is at most 100 times the weight (15 at the shipped weight 0.15, not 15 times
  the weight), a low RSI adds and a high RSI subtracts.
\<close>

theorem score_rsi_contribution:
  assumes "rsi d = Some r" and "0 \<le> r" and "r \<le> 100" and "0 \<le> w_rsi w"
  shows "\<bar>score_rsi w d score - score\<bar> = 2 * w_rsi w * \<bar>50 - r\<bar>
       \<and> \<bar>score_rsi w d score - score\<bar> \<le> 100 * w_rsi w
       \<and> (r \<le> 50 \<longrightarrow> 0 \<le> score_rsi w d score - score)
       \<and> (r > 50 \<longrightarrow> score_rsi w d score - score \<le> 0)
       \<and> (0 < w_rsi w \<and> r < 50 \<longrightarrow> 0 < score_rsi w d score - score)
       \<and> (0 < w_rsi w \<and> r > 50 \<longrightarrow> score_rsi w d score - score < 0)"
proof -
  have eq: "score_rsi w d score - score = 2 * w_rsi w * (50 - r)"
    using assms(1) by (rule score_rsi_delta)
  have abs_eq: "\<bar>score_rsi w d score - score\<bar> = 2 * w_rsi w * \<bar>50 - r\<bar>"
    using assms(4) by (simp add: eq abs_mult)
  have "\<bar>50 - r\<bar> \<le> 50" using assms(2,3) by simp
  then have "2 * w_rsi w * \<bar>50 - r\<bar> \<le> 2 * w_rsi w * 50"
    using assms(4) by (intro mult_left_mono) simp_all
  then have bound: "\<bar>score_rsi w d score - score\<bar> \<le> 100 * w_rsi w"
    using abs_eq by simp
  have s1: "r \<le> 50 \<longrightarrow> 0 \<le> score_rsi w d score - score"
    using assms(4) by (simp add: eq)
  have s2: "r > 50 \<longrightarrow> score_rsi w d score - score \<le> 0"
    using assms(4) by (simp add: eq mult_nonneg_nonpos)
  have s3: "0 < w_rsi w \<and> r < 50 \<longrightarrow> 0 < score_rsi w d score - score"
    by (simp add: eq)
  have s4: "0 < w_rsi w \<and> r > 50 \<longrightarrow> score_rsi w d score - score < 0"
    by (simp add: eq mult_pos_neg)
  show ?thesis using abs_eq bound s1 s2 s3 s4 by blast
qed

text \<open>The theorem at RSI 30 with the shipped weights: the block adds 6.\<close>

theorem score_rsi_contribution_witness:
  "rsi (no_indicators\<lparr>rsi := Some 30\<rparr>) = Some 30 \<and> (0::real) \<le> 30 \<and> (30::real) \<le> 100
   \<and> 0 \<le> w_rsi default_weights
   \<and> score_rsi default_weights (no_indicators\<lparr>rsi := Some 30\<rparr>) 50 - 50 = 6
   \<and> \<bar>score_rsi default_weights (no_indicators\<lparr>rsi := Some 30\<rparr>) 50 - 50\<bar>
        \<le> 100 * w_rsi default_weights"
  using score_rsi_contribution [of "no_indicators\<lparr>rsi := Some 30\<rparr>" 30 default_weights 50]
  by (simp add: score_rsi_def no_indicators_def default_weights_def)

text \<open>
  C5 as stated fails: at RSI 30 with the shipped weight 0.15 the block adds 6, more than
  15 \<times> 0.15 = 2.25.
\<close>

theorem score_rsi_exceeds_15_times_weight:
  "\<not> \<bar>score_rsi default_weights (no_indicators\<lparr>rsi := Some 30\<rparr>) 50 - 50\<bar>
       \<le> 15 * w_rsi default_weights"
  by (simp add: score_rsi_def no_indicators_def default_weights_def)

section \<open>Properties of top detection\<close>

lemma top_fired_iff:
  "fst (check_for_top_detection d s) \<longleftrightarrow> spec_top_condition d \<and> ema200_positive d"
  by (auto simp: check_for_top_detection_def spec_top_condition_def ema200_positive_def
      is_rsi_overbought_def is_above_ema200_def parabolic_def pos_le_divide_eq
      split: option.splits prod.splits if_splits)

lemma top_intensity_not_fired:
  "\<not> fst (check_for_top_detection d s) \<Longrightarrow> snd (check_for_top_detection d s) = 0"
  by (auto simp: check_for_top_detection_def split: prod.splits if_splits)

lemma top_intensity_fired:
  "fst (check_for_top_detection d s) \<Longrightarrow> price_change_7d_percent d = Some c7 \<Longrightarrow>
   price_change_30d_percent d = Some c30 \<Longrightarrow>
   snd (check_for_top_detection d s) = (c7 + c30) / 200"
  by (auto simp: check_for_top_detection_def parabolic_def split: prod.splits if_splits)

lemma top_example:
  "0 < e \<Longrightarrow>
   check_for_top_detection
     (d\<lparr>rsi := Some 88, price := Some (2.5 * e), ema200 := Some e,
        price_change_7d_percent := Some 60, price_change_30d_percent := Some 120\<rparr>) s
   = (True, 0.9)"
  by (simp add: check_for_top_detection_def parabolic_def is_rsi_overbought_def
      is_above_ema200_def)

text \<open>
  C7 (as amended). \<open>check_for_top_detection\<close> fires exactly when RSI > 80, EMA200 is
  positive, price \<ge> 1.5 \<times> EMA200, the 7-sample change is above 50 and the 30-sample
  change above 100; the sentiment does not enter. When it does not fire the intensity is
  0, when it fires the intensity is (7d% + 30d%) / 200. With RSI 88, a positive EMA200,
  price 2.5 \<times> EMA200 and changes of 60 and 120 percent the result is (true, 0.9).
\<close>

theorem check_for_top_detection_fires_iff:
  "(fst (check_for_top_detection d s) \<longleftrightarrow> spec_top_condition d \<and> ema200_positive d)
   \<and> (\<not> fst (check_for_top_detection d s) \<longrightarrow> snd (check_for_top_detection d s) = 0)
   \<and> (fst (check_for_top_detection d s) \<and> price_change_7d_percent d = Some c7
        \<and> price_change_30d_percent d = Some c30
        \<longrightarrow> snd (check_for_top_detection d s) = (c7 + c30) / 200)
   \<and> (0 < e \<longrightarrow>
        check_for_top_detection
          (d\<lparr>rsi := Some 88, price := Some (2.5 * e), ema200 := Some e,
             price_change_7d_percent := Some 60, price_change_30d_percent := Some 120\<rparr>) s
        = (True, 0.9))"
  using top_fired_iff [of d s] top_intensity_not_fired [of d s]
    top_intensity_fired [of d s c7 c30] top_example [of e d s]
  by blast

text \<open>
  The theorem at the data of the module's own test (RSI 88, price 250, EMA200 100,
  changes 60 and 120, FGI 85): it fires with intensity 0.9.
\<close>

theorem check_for_top_detection_fires_iff_witness:
  "spec_top_condition sample_data_top \<and> ema200_positive sample_data_top
   \<and> price_change_7d_percent sample_data_top = Some 60
   \<and> price_change_30d_percent sample_data_top = Some 120 \<and> (0::real) < 100
   \<and> \<not> fst (check_for_top_detection no_indicators no_sentiment)
   \<and> snd (check_for_top_detection no_indicators no_sentiment) = 0
   \<and> fst (check_for_top_detection sample_data_top sample_sentiment_top)
   \<and> snd (check_for_top_detection sample_data_top sample_sentiment_top) = (60 + 120) / 200
   \<and> check_for_top_detection sample_data_top sample_sentiment_top = (True, 0.9)"
  using check_for_top_detection_fires_iff
    [of sample_data_top sample_sentiment_top 60 120 100]
    check_for_top_detection_fires_iff [of no_indicators no_sentiment 0 0 0]
  by (simp add: sample_data_top_def spec_top_condition_def ema200_positive_def
      no_indicators_def)

text \<open>
  C7 as stated fails where EMA200 is not positive: with RSI 88, price 10, EMA200 0 and
  changes of 60 and 120 percent every stated condition holds (10 \<ge> 1.5 \<times> 0) and the
  function returns (false, 0).
\<close>

theorem check_for_top_detection_zero_ema200:
  "spec_top_condition top_zero_ema200
   \<and> check_for_top_detection top_zero_ema200 no_sentiment = (False, 0)"
  by (simp add: top_zero_ema200_def spec_top_condition_def check_for_top_detection_def
      parabolic_def is_rsi_overbought_def is_above_ema200_def no_indicators_def
      no_sentiment_def)

section \<open>Properties of the indicator library\<close>

lemma ewm_mean_last_some: "xs \<noteq> [] \<Longrightarrow> \<exists>v. ewm_mean_last alpha xs = Some v"
  by (cases xs) (simp_all add: ewm_mean_last_def)

lemma diff_nonempty: "xs \<noteq> [] \<Longrightarrow> diff xs \<noteq> []"
  by (cases xs) (simp_all add: diff_def)

lemma short_series_absent:
  "(length prices < window + 1 \<longrightarrow> calculate_rsi prices window = Inr None)
   \<and> (length prices < window \<longrightarrow> calculate_ema prices window = Inr None)
   \<and> (length prices < window \<longrightarrow> calculate_bollinger_bands prices window k = None)"
  by (simp add: calculate_rsi_def calculate_ema_def calculate_bollinger_bands_def)

lemma calculate_rsi_present:
  assumes "1 \<le> window" and "window + 1 \<le> length prices"
  shows "\<exists>v. calculate_rsi prices window = Inr (Some v)"
proof -
  have ne: "prices \<noteq> []" using assms(2) by auto
  obtain g where
    g: "ewm_mean_last (1 / (1 + (real window - 1))) (map gain_of (diff prices)) = Some g"
    using ewm_mean_last_some [of "map gain_of (diff prices)"] diff_nonempty [OF ne] by auto
  obtain l where
    l: "ewm_mean_last (1 / (1 + (real window - 1))) (map loss_of (diff prices)) = Some l"
    using ewm_mean_last_some [of "map loss_of (diff prices)"] diff_nonempty [OF ne] by auto
  show ?thesis using assms g l
    by (cases "l = 0") (simp_all add: calculate_rsi_def Let_def)
qed

lemma calculate_ema_present:
  assumes "1 \<le> window" and "window \<le> length prices"
  shows "\<exists>v. calculate_ema prices window = Inr (Some v)"
proof -
  have ne: "prices \<noteq> []" using assms by auto
  then show ?thesis using assms ewm_mean_last_some [OF ne, of "2 / (real window + 1)"]
    by (auto simp: calculate_ema_def)
qed

lemma calculate_bollinger_bands_present:
  assumes "1 \<le> window" and "window \<le> length prices"
  shows "\<exists>b. calculate_bollinger_bands prices window k = Some b"
proof -
  have ne: "prices \<noteq> []" using assms by auto
  then show ?thesis using assms
    by (simp add: calculate_bollinger_bands_def Let_def)
qed

text \<open>
  C10. A price sequence with fewer than \<open>window + 1\<close> samples gives no RSI, one with
  fewer than \<open>window\<close> samples gives no EMA and no Bollinger Bands: each function
  returns \<^verbatim>\<open>None\<close>, which is neither an exception nor a number. These lengths are the
  minimum lengths: for a window of at least 1, a sequence that reaches them gives a value.
\<close>

theorem short_series_indicator_absent:
  "(length prices < window + 1 \<longrightarrow> calculate_rsi prices window = Inr None)
   \<and> (length prices < window \<longrightarrow> calculate_ema prices window = Inr None)
   \<and> (length prices < window \<longrightarrow> calculate_bollinger_bands prices window k = None)
   \<and> (1 \<le> window \<and> window + 1 \<le> length prices
        \<longrightarrow> (\<exists>v. calculate_rsi prices window = Inr (Some v)))
   \<and> (1 \<le> window \<and> window \<le> length prices
        \<longrightarrow> (\<exists>v. calculate_ema prices window = Inr (Some v))
            \<and> (\<exists>b. calculate_bollinger_bands prices window k = Some b))"
proof -
  have short:
    "(length prices < window + 1 \<longrightarrow> calculate_rsi prices window = Inr None)
     \<and> (length prices < window \<longrightarrow> calculate_ema prices window = Inr None)
     \<and> (length prices < window \<longrightarrow> calculate_bollinger_bands prices window k = None)"
    by (rule short_series_absent)
  have rsi_v: "1 \<le> window \<and> window + 1 \<le> length prices
      \<longrightarrow> (\<exists>v. calculate_rsi prices window = Inr (Some v))"
    using calculate_rsi_present [of window prices] by blast
  have ema_v: "1 \<le> window \<and> window \<le> length prices
      \<longrightarrow> (\<exists>v. calculate_ema prices window = Inr (Some v))"
    using calculate_ema_present [of window prices] by blast
  have bb_v: "1 \<le> window \<and> window \<le> length prices
      \<longrightarrow> (\<exists>b. calculate_bollinger_bands prices window k = Some b)"
    using calculate_bollinger_bands_present [of window prices k] by blast
  show ?thesis using short rsi_v ema_v bb_v by blast
qed

text \<open>
  The theorem at 14 prices with the windows of the callers, where there is no RSI(14)
  (15 samples needed), no EMA(20) and no Bollinger(20, 2), and at five prices with
  window 3, where the three indicators have values.
\<close>

theorem short_series_indicator_absent_witness:
  "length [1, 2, 3, 4, 5, 6, 7, 8, 9, 10, 11, 12, 13, 14 :: real] < 14 + 1
   \<and> calculate_rsi [1, 2, 3, 4, 5, 6, 7, 8, 9, 10, 11, 12, 13, 14] 14 = Inr None
   \<and> length [1, 2, 3, 4, 5, 6, 7, 8, 9, 10, 11, 12, 13, 14 :: real] < 20
   \<and> calculate_ema [1, 2, 3, 4, 5, 6, 7, 8, 9, 10, 11, 12, 13, 14] 20 = Inr None
   \<and> calculate_bollinger_bands [1, 2, 3, 4, 5, 6, 7, 8, 9, 10, 11, 12, 13, 14] 20 2 = None
   \<and> (1::nat) \<le> 3 \<and> 3 + 1 \<le> length [1, 2, 3, 2, 4 :: real]
   \<and> calculate_rsi [1, 2, 3, 2, 4] 3 = Inr (Some (1850 / 23))
   \<and> calculate_ema [1, 2, 3, 2, 4] 3 = Inr (Some (49 / 16))
   \<and> calculate_bollinger_bands [1, 2, 3, 2, 4] 3 2
        = Some \<lparr>upper = Some 5, middle = Some 3, lower = Some 1\<rparr>"
  using short_series_indicator_absent
      [of "[1, 2, 3, 4, 5, 6, 7, 8, 9, 10, 11, 12, 13, 14]" 14 2]
    short_series_indicator_absent
      [of "[1, 2, 3, 4, 5, 6, 7, 8, 9, 10, 11, 12, 13, 14]" 20 2]
    short_series_indicator_absent [of "[1, 2, 3, 2, 4]" 3 2]
  by (simp add: calculate_rsi_def diff_def gain_of_def loss_of_def ewm_mean_last_def
      calculate_ema_def calculate_bollinger_bands_def rolling_mean_last_def
      rolling_std_last_def power2_eq_square)

section \<open>Properties of the alert gate\<close>

lemma on_cooldown_iff:
  "\<not> on_cooldown lt key now h
   \<longleftrightarrow> (lt key = None \<or> (\<exists>t. lt key = Some t \<and> (now - t) / 3600 \<ge> h))"
  by (auto simp: on_cooldown_def split: option.splits)

lemma on_cooldown_5h59: "on_cooldown [key \<mapsto> 0] key (5 * 3600 + 59 * 60) 6"
  by (simp add: on_cooldown_def)

lemma on_cooldown_6h00: "\<not> on_cooldown [key \<mapsto> 0] key (6 * 3600) 6"
  by (simp add: on_cooldown_def)

lemma send_discord_alert_gate:
  "score \<ge> ALERT_SCORE_THRESHOLD cfg \<Longrightarrow> signal_alert_fields det = None \<Longrightarrow>
   send_discord_message (DISCORD_WEBHOOK_URL cfg) http_ok \<Longrightarrow>
   (fst (send_discord_alert cfg coin_id score det now http_ok lt) = Inr True)
     = (\<not> on_cooldown (last_signal_alert_times lt) coin_id now (ALERT_COOLDOWN_HOURS cfg))"
  by (simp add: send_discord_alert_def)

text \<open>
  C9. The cooldown test lets a call pass exactly when no time is recorded for the key or
  the hours elapsed since the recorded time are at least the configured interval. With an
  interval of 6 hours and a time recorded at 0, a call at 5 h 59 min is rejected and a
  call at exactly 6 h is let through. In \<open>send_discord_alert\<close>, when the score reaches
  the threshold, the fields can be built and the dispatch succeeds, the alert is sent
  exactly when the test lets the call pass.
\<close>

theorem cooldown_gate_allows_iff:
  "(\<not> on_cooldown lt key now h
      \<longleftrightarrow> (lt key = None \<or> (\<exists>t. lt key = Some t \<and> (now - t) / 3600 \<ge> h)))
   \<and> on_cooldown [key \<mapsto> 0] key (5 * 3600 + 59 * 60) 6
   \<and> \<not> on_cooldown [key \<mapsto> 0] key (6 * 3600) 6
   \<and> (score \<ge> ALERT_SCORE_THRESHOLD cfg \<and> signal_alert_fields det = None
        \<and> send_discord_message (DISCORD_WEBHOOK_URL cfg) http_ok
        \<longrightarrow> (fst (send_discord_alert cfg coin_id score det now http_ok lts) = Inr True)
             = (\<not> on_cooldown (last_signal_alert_times lts) coin_id now
                    (ALERT_COOLDOWN_HOURS cfg)))"
  using on_cooldown_iff [of lt key now h] on_cooldown_5h59 [of key] on_cooldown_6h00 [of key]
    send_discord_alert_gate [of cfg score det http_ok coin_id now lts]
  by blast

text \<open>
  The theorem at the shipped interval of 6 hours, a Solana signal alert recorded at time
  0, score 85 and a working webhook: the call at 21540 s returns false and leaves the
  dictionaries alone, the call at 21600 s sends.
\<close>

theorem cooldown_gate_allows_iff_witness:
  "(85 \<ge> ALERT_SCORE_THRESHOLD example_config \<and> signal_alert_fields sample_details = None
      \<and> send_discord_message (DISCORD_WEBHOOK_URL example_config) True)
   \<and> ALERT_COOLDOWN_HOURS example_config = 6
   \<and> last_signal_alert_times signal_fired_at_0 ''solana'' = Some 0
   \<and> send_discord_alert example_config ''solana'' 85 sample_details (5 * 3600 + 59 * 60) True
        signal_fired_at_0 = (Inr False, signal_fired_at_0)
   \<and> fst (send_discord_alert example_config ''solana'' 85 sample_details (6 * 3600) True
        signal_fired_at_0) = Inr True"
  using cooldown_gate_allows_iff
    [where lt = "last_signal_alert_times signal_fired_at_0" and key = "''solana''"
       and now = "6 * 3600" and h = 6 and score = 85 and cfg = example_config
       and det = sample_details and http_ok = True and coin_id = "''solana''"
       and lts = signal_fired_at_0]
  by (simp add: send_discord_alert_def on_cooldown_def signal_fired_at_0_def
      example_config_def signal_alert_fields_def sample_details_def sample_data_top_def
      send_discord_message_def)

lemma send_discord_alert_ledger:
  "ledger_written_iff_dispatched
     (on_cooldown (last_signal_alert_times lt) coin_id now (ALERT_COOLDOWN_HOURS cfg))
     (\<not> on_cooldown (last_signal_alert_times lt) coin_id now (ALERT_COOLDOWN_HOURS cfg)
        \<and> \<not> score < ALERT_SCORE_THRESHOLD cfg \<and> signal_alert_fields det = None)
     (send_discord_message (DISCORD_WEBHOOK_URL cfg) http_ok) lt
     (lt\<lparr>last_signal_alert_times := (last_signal_alert_times lt)(coin_id \<mapsto> now)\<rparr>)
     (send_discord_alert cfg coin_id score det now http_ok lt)"
  by (auto simp: ledger_written_iff_dispatched_def send_discord_alert_def
      split: option.splits)

lemma check_price_alerts_ledger:
  "ledger_written_iff_dispatched
     (on_cooldown (last_price_alert_times lt) coin_id now (PRICE_ALERT_COOLDOWN_HOURS cfg))
     (\<not> on_cooldown (last_price_alert_times lt) coin_id now (PRICE_ALERT_COOLDOWN_HOURS cfg)
        \<and> price_target_hit cfg coin_id p)
     (send_discord_message (DISCORD_WEBHOOK_URL cfg) http_ok) lt
     (lt\<lparr>last_price_alert_times := (last_price_alert_times lt)(coin_id \<mapsto> now)\<rparr>)
     (check_price_alerts cfg coin_id p now http_ok lt)"
  by (auto simp: ledger_written_iff_dispatched_def check_price_alerts_def
      price_target_hit_def Let_def split: option.splits)

lemma send_top_detection_alert_ledger:
  "ledger_written_iff_dispatched
     (on_cooldown (last_top_detection_alert_times lt) coin_id now (ALERT_COOLDOWN_HOURS cfg))
     (\<not> on_cooldown (last_top_detection_alert_times lt) coin_id now
          (ALERT_COOLDOWN_HOURS cfg)
        \<and> r \<noteq> None \<and> e \<noteq> None)
     (send_discord_message (DISCORD_WEBHOOK_URL cfg) http_ok) lt
     (lt\<lparr>last_top_detection_alert_times :=
          (last_top_detection_alert_times lt)(coin_id \<mapsto> now)\<rparr>)
     (send_top_detection_alert cfg coin_id p r e pf now http_ok lt)"
  by (auto simp: ledger_written_iff_dispatched_def send_top_detection_alert_def)

lemma send_dip_buy_alert_ledger:
  "ledger_written_iff_dispatched
     (on_cooldown (last_dip_buy_alert_times lt) coin_id now (ALERT_COOLDOWN_HOURS cfg))
     (\<not> on_cooldown (last_dip_buy_alert_times lt) coin_id now (ALERT_COOLDOWN_HOURS cfg)
        \<and> r \<noteq> None \<and> e \<noteq> None)
     (send_discord_message (DISCORD_WEBHOOK_URL cfg) http_ok) lt
     (lt\<lparr>last_dip_buy_alert_times := (last_dip_buy_alert_times lt)(coin_id \<mapsto> now)\<rparr>)
     (send_dip_buy_alert cfg coin_id p r e bl c7 now http_ok lt)"
  by (auto simp: ledger_written_iff_dispatched_def send_dip_buy_alert_def)

lemma send_profit_taking_alert_ledger:
  "ledger_written_iff_dispatched
     (on_cooldown (last_profit_taking_alert_times lt) (coin_id, target) now
        (PROFIT_TAKING_ALERT_COOLDOWN_HOURS cfg))
     (\<not> on_cooldown (last_profit_taking_alert_times lt) (coin_id, target) now
          (PROFIT_TAKING_ALERT_COOLDOWN_HOURS cfg))
     (send_discord_message (DISCORD_WEBHOOK_URL cfg) http_ok) lt
     (lt\<lparr>last_profit_taking_alert_times :=
          (last_profit_taking_alert_times lt)((coin_id, target) \<mapsto> now)\<rparr>)
     (send_profit_taking_alert cfg coin_id p target pct qty now http_ok lt)"
  by (auto simp: ledger_written_iff_dispatched_def send_profit_taking_alert_def Let_def)

lemma send_trailing_stop_alert_ledger:
  "ledger_written_iff_dispatched
     (on_cooldown (last_trailing_stop_alert_times lt) (trailing_stop_alert_key coin_id dp cb)
        now (TRAILING_STOP_ALERT_COOLDOWN_HOURS cfg))
     (\<not> on_cooldown (last_trailing_stop_alert_times lt)
          (trailing_stop_alert_key coin_id dp cb) now (TRAILING_STOP_ALERT_COOLDOWN_HOURS cfg))
     (send_discord_message (DISCORD_WEBHOOK_URL cfg) http_ok) lt
     (lt\<lparr>last_trailing_stop_alert_times :=
          (last_trailing_stop_alert_times lt)(trailing_stop_alert_key coin_id dp cb \<mapsto> now)\<rparr>)
     (send_trailing_stop_alert cfg coin_id p ath dp e cb now http_ok lt)"
  by (auto simp: ledger_written_iff_dispatched_def send_trailing_stop_alert_def Let_def)

text \<open>
  C8. In each of the six senders the entry of the key is set to the current time exactly
  when control reaches the dispatch and the dispatch succeeds; then the call returns
  true. In every other case, among them a call rejected by the cooldown test and a
  dispatch that fails, the dictionaries are left as they were and the call does not
  return true.
\<close>

theorem ledger_written_only_after_dispatch:
  "ledger_written_iff_dispatched
     (on_cooldown (last_signal_alert_times lt) coin_id now (ALERT_COOLDOWN_HOURS cfg))
     (\<not> on_cooldown (last_signal_alert_times lt) coin_id now (ALERT_COOLDOWN_HOURS cfg)
        \<and> \<not> score < ALERT_SCORE_THRESHOLD cfg \<and> signal_alert_fields det = None)
     (send_discord_message (DISCORD_WEBHOOK_URL cfg) http_ok) lt
     (lt\<lparr>last_signal_alert_times := (last_signal_alert_times lt)(coin_id \<mapsto> now)\<rparr>)
     (send_discord_alert cfg coin_id score det now http_ok lt)
   \<and> ledger_written_iff_dispatched
     (on_cooldown (last_price_alert_times lt) coin_id now (PRICE_ALERT_COOLDOWN_HOURS cfg))
     (\<not> on_cooldown (last_price_alert_times lt) coin_id now (PRICE_ALERT_COOLDOWN_HOURS cfg)
        \<and> price_target_hit cfg coin_id p)
     (send_discord_message (DISCORD_WEBHOOK_URL cfg) http_ok) lt
     (lt\<lparr>last_price_alert_times := (last_price_alert_times lt)(coin_id \<mapsto> now)\<rparr>)
     (check_price_alerts cfg coin_id p now http_ok lt)
   \<and> ledger_written_iff_dispatched
     (on_cooldown (last_top_detection_alert_times lt) coin_id now (ALERT_COOLDOWN_HOURS cfg))
     (\<not> on_cooldown (last_top_detection_alert_times lt) coin_id now
          (ALERT_COOLDOWN_HOURS cfg)
        \<and> r \<noteq> None \<and> e \<noteq> None)
     (send_discord_message (DISCORD_WEBHOOK_URL cfg) http_ok) lt
     (lt\<lparr>last_top_detection_alert_times :=
          (last_top_detection_alert_times lt)(coin_id \<mapsto> now)\<rparr>)
     (send_top_detection_alert cfg coin_id p r e pf now http_ok lt)
   \<and> ledger_written_iff_dispatched
     (on_cooldown (last_dip_buy_alert_times lt) coin_id now (ALERT_COOLDOWN_HOURS cfg))
     (\<not> on_cooldown (last_dip_buy_alert_times lt) coin_id now (ALERT_COOLDOWN_HOURS cfg)
        \<and> r \<noteq> None \<and> e \<noteq> None)
     (send_discord_message (DISCORD_WEBHOOK_URL cfg) http_ok) lt
     (lt\<lparr>last_dip_buy_alert_times := (last_dip_buy_alert_times lt)(coin_id \<mapsto> now)\<rparr>)
     (send_dip_buy_alert cfg coin_id p r e bl chg now http_ok lt)
   \<and> ledger_written_iff_dispatched
     (on_cooldown (last_profit_taking_alert_times lt) (coin_id, target) now
        (PROFIT_TAKING_ALERT_COOLDOWN_HOURS cfg))
     (\<not> on_cooldown (last_profit_taking_alert_times lt) (coin_id, target) now
          (PROFIT_TAKING_ALERT_COOLDOWN_HOURS cfg))
     (send_discord_message (DISCORD_WEBHOOK_URL cfg) http_ok) lt
     (lt\<lparr>last_profit_taking_alert_times :=
          (last_profit_taking_alert_times lt)((coin_id, target) \<mapsto> now)\<rparr>)
     (send_profit_taking_alert cfg coin_id p target pct qty now http_ok lt)
   \<and> ledger_written_iff_dispatched
     (on_cooldown (last_trailing_stop_alert_times lt) (trailing_stop_alert_key coin_id dp cb)
        now (TRAILING_STOP_ALERT_COOLDOWN_HOURS cfg))
     (\<not> on_cooldown (last_trailing_stop_alert_times lt)
          (trailing_stop_alert_key coin_id dp cb) now (TRAILING_STOP_ALERT_COOLDOWN_HOURS cfg))
     (send_discord_message (DISCORD_WEBHOOK_URL cfg) http_ok) lt
     (lt\<lparr>last_trailing_stop_alert_times :=
          (last_trailing_stop_alert_times lt)(trailing_stop_alert_key coin_id dp cb \<mapsto> now)\<rparr>)
     (send_trailing_stop_alert cfg coin_id p ath dp e cb now http_ok lt)"
  using send_discord_alert_ledger [of lt coin_id now cfg score det http_ok]
    check_price_alerts_ledger [of lt coin_id now cfg p http_ok]
    send_top_detection_alert_ledger [of lt coin_id now cfg r e http_ok p pf]
    send_dip_buy_alert_ledger [of lt coin_id now cfg r e http_ok p bl chg]
    send_profit_taking_alert_ledger [of lt coin_id target now cfg http_ok p pct qty]
    send_trailing_stop_alert_ledger [of lt coin_id dp cb now cfg http_ok p ath e]
  by simp

text \<open>
  The theorem at three calls of \<open>send_discord_alert\<close> with score 85: a call that
  reaches a successful dispatch writes the time, a call whose dispatch fails and a call
  within the cooldown leave the dictionaries as they were.
\<close>

theorem ledger_written_only_after_dispatch_witness:
  "(\<not> on_cooldown (last_signal_alert_times no_alert_times) ''solana'' (6 * 3600)
         (ALERT_COOLDOWN_HOURS example_config)
      \<and> \<not> 85 < ALERT_SCORE_THRESHOLD example_config
      \<and> signal_alert_fields sample_details = None
      \<and> send_discord_message (DISCORD_WEBHOOK_URL example_config) True)
   \<and> send_discord_alert example_config ''solana'' 85 sample_details (6 * 3600) True no_alert_times
        = (Inr True, no_alert_times\<lparr>last_signal_alert_times :=
             (last_signal_alert_times no_alert_times)(''solana'' \<mapsto> 6 * 3600)\<rparr>)
   \<and> \<not> send_discord_message (DISCORD_WEBHOOK_URL example_config) False
   \<and> send_discord_alert example_config ''solana'' 85 sample_details (6 * 3600) False no_alert_times
        = (Inr False, no_alert_times)
   \<and> on_cooldown (last_signal_alert_times signal_fired_at_0) ''solana'' (5 * 3600 + 59 * 60)
        (ALERT_COOLDOWN_HOURS example_config)
   \<and> send_discord_alert example_config ''solana'' 85 sample_details (5 * 3600 + 59 * 60) True
        signal_fired_at_0 = (Inr False, signal_fired_at_0)"
  using ledger_written_only_after_dispatch
      [where lt = no_alert_times and coin_id = "''solana''" and now = "6 * 3600"
         and cfg = example_config and score = 85 and det = sample_details and http_ok = True
         and p = 250 and r = "Some 88" and e = "Some 100" and pf = "0.9" and bl = None
         and chg = None and target = 295 and pct = 20 and qty = 58 and dp = "Some (700 / 27)"
         and cb = False and ath = "Some 300"]
    ledger_written_only_after_dispatch
      [where lt = no_alert_times and coin_id = "''solana''" and now = "6 * 3600"
         and cfg = example_config and score = 85 and det = sample_details and http_ok = False
         and p = 250 and r = "Some 88" and e = "Some 100" and pf = "0.9" and bl = None
         and chg = None and target = 295 and pct = 20 and qty = 58 and dp = "Some (700 / 27)"
         and cb = False and ath = "Some 300"]
    ledger_written_only_after_dispatch
      [where lt = signal_fired_at_0 and coin_id = "''solana''" and now = "5 * 3600 + 59 * 60"
         and cfg = example_config and score = 85 and det = sample_details and http_ok = True
         and p = 250 and r = "Some 88" and e = "Some 100" and pf = "0.9" and bl = None
         and chg = None and target = 295 and pct = 20 and qty = 58 and dp = "Some (700 / 27)"
         and cb = False and ath = "Some 300"]
  by (simp add: send_discord_alert_def on_cooldown_def signal_fired_at_0_def
      no_alert_times_def example_config_def signal_alert_fields_def sample_details_def
      sample_data_top_def send_discord_message_def)

section \<open>Properties of the trailing stop\<close>

lemma ath_le_refl [simp]: "ath_le x x"
  by (cases x) simp_all

lemma ath_le_trans: "ath_le x y \<Longrightarrow> ath_le y z \<Longrightarrow> ath_le x z"
  by (cases x; cases y; cases z) simp_all

lemma ema50_cross_check_ath [simp]:
  "get_dynamic_ath (snd (ema50_cross_check ts c' p e st)) c = get_dynamic_ath st c"
  by (simp add: ema50_cross_check_def get_dynamic_ath_def set_ema50_position_def Let_def
      split: option.splits bool.splits)

lemma ath_drop_check_ath:
  "get_dynamic_ath (snd (ath_drop_check c' p th st)) c =
     (if c' = c then (case get_dynamic_ath st c of None \<Rightarrow> Some p | Some a \<Rightarrow> Some (max a p))
      else get_dynamic_ath st c)"
  by (auto simp: ath_drop_check_def get_dynamic_ath_def set_dynamic_ath_def Let_def max_def
      split: option.splits)

lemma check_for_trailing_stop_ath:
  "get_dynamic_ath (snd (check_for_trailing_stop ts c' d g st)) c =
     (case (price d, drop_threshold ts c') of
        (Some p, Some th) \<Rightarrow>
          if c' = c then (case get_dynamic_ath st c of None \<Rightarrow> Some p | Some a \<Rightarrow> Some (max a p))
          else get_dynamic_ath st c
      | _ \<Rightarrow> get_dynamic_ath st c)"
proof (cases "price d")
  case None
  then show ?thesis by (simp add: check_for_trailing_stop_def)
next
  case (Some p)
  show ?thesis
  proof (cases "drop_threshold ts c'")
    case None
    then show ?thesis using Some
      by (simp add: check_for_trailing_stop_def drop_threshold_def)
  next
    case (Some th)
    obtain fired st1 where r: "ath_drop_check c' p th st = (fired, st1)"
      by (cases "ath_drop_check c' p th st")
    have st1: "get_dynamic_ath st1 c =
       (if c' = c then (case get_dynamic_ath st c of None \<Rightarrow> Some p | Some a \<Rightarrow> Some (max a p))
        else get_dynamic_ath st c)"
      using ath_drop_check_ath [of c' p th st c] r by simp
    show ?thesis using \<open>price d = Some p\<close> Some r st1
      by (cases fired) (simp_all add: check_for_trailing_stop_def drop_threshold_def)
  qed
qed

lemma check_for_trailing_stop_ath_le:
  "ath_le (get_dynamic_ath st c) (get_dynamic_ath (snd (check_for_trailing_stop ts c' d g st)) c)"
  by (simp add: check_for_trailing_stop_ath split: option.splits)

lemma run_trailing_stop_ath_le:
  "ath_le (get_dynamic_ath st c) (get_dynamic_ath (run_trailing_stop ts calls st) c)"
proof (induction calls arbitrary: st)
  case Nil
  then show ?case by simp
next
  case (Cons x xs)
  obtain c' d g where x: "x = (c', d, g)" by (cases x)
  show ?case using Cons.IH [of "snd (check_for_trailing_stop ts c' d g st)"] check_for_trailing_stop_ath_le [of st c ts c' d g]
    by (simp add: x) (metis ath_le_trans)
qed

lemma run_trailing_stop_append:
  "run_trailing_stop ts (xs @ ys) st = run_trailing_stop ts ys (run_trailing_stop ts xs st)"
  by (induction xs arbitrary: st) auto

lemma get_dynamic_ath_empty: "get_dynamic_ath empty_state c = None"
  by (simp add: empty_state_def get_dynamic_ath_def)

lemma dynamic_ath_trace_example:
  "drop_threshold ts c = Some th \<Longrightarrow>
   dynamic_ath_trace ts c (map (\<lambda>p. (c, price_only p e, g)) [100, 120, 90, 130, 80]) empty_state
     = [Some 100, Some 120, Some 120, Some 130, Some 130]"
  by (simp add: check_for_trailing_stop_ath Let_def price_only_def get_dynamic_ath_empty)

text \<open>
  C3. Over any sequence of calls of \<open>check_for_trailing_stop\<close>, for any coins and
  data, the dynamic ATH stored for a coin never decreases: the value after a longer run is
  at least the value after any of its prefixes. One call changes the stored value only for
  its own coin, with a configured drop threshold and a price: it stores the price when
  nothing was stored and the larger of stored value and price otherwise. With a configured
  threshold and the prices 100, 120, 90, 130, 80 observed from the empty state the stored
  values are 100, 120, 120, 130, 130.
\<close>

theorem dynamic_ath_non_decreasing:
  "ath_le (get_dynamic_ath (run_trailing_stop ts xs st) c)
          (get_dynamic_ath (run_trailing_stop ts (xs @ ys) st) c)
   \<and> get_dynamic_ath (snd (check_for_trailing_stop ts c' d g st)) c =
       (case (price d, drop_threshold ts c') of
          (Some p, Some th) \<Rightarrow>
            if c' = c
            then (case get_dynamic_ath st c of None \<Rightarrow> Some p | Some a \<Rightarrow> Some (max a p))
            else get_dynamic_ath st c
        | _ \<Rightarrow> get_dynamic_ath st c)
   \<and> (drop_threshold ts c = Some th' \<longrightarrow>
        dynamic_ath_trace ts c (map (\<lambda>p. (c, price_only p e, g')) [100, 120, 90, 130, 80])
          empty_state
        = [Some 100, Some 120, Some 120, Some 130, Some 130])"
  using run_trailing_stop_ath_le [of "run_trailing_stop ts xs st" c ts ys] run_trailing_stop_append [of ts xs ys st]
    check_for_trailing_stop_ath [of ts c' d g st c] dynamic_ath_trace_example [of ts c th' e g']
  by simp

text \<open>
  The theorem for Solana with the shipped settings (threshold 20, EMA check enabled) and an
  EMA50 of 110: the values after two and after five calls are 120 and 130.
\<close>

theorem dynamic_ath_non_decreasing_witness:
  "drop_threshold shipped_trailing_stop_alerts ''solana'' = Some 20
   \<and> dynamic_ath_trace shipped_trailing_stop_alerts ''solana''
        (map (\<lambda>p. (''solana'', price_only p (Some 110), Some 300)) [100, 120, 90, 130, 80])
        empty_state
      = [Some 100, Some 120, Some 120, Some 130, Some 130]
   \<and> ath_le
        (get_dynamic_ath
           (run_trailing_stop shipped_trailing_stop_alerts
              (map (\<lambda>p. (''solana'', price_only p (Some 110), Some 300)) [100, 120])
              empty_state) ''solana'')
        (get_dynamic_ath
           (run_trailing_stop shipped_trailing_stop_alerts
              (map (\<lambda>p. (''solana'', price_only p (Some 110), Some 300)) [100, 120]
               @ map (\<lambda>p. (''solana'', price_only p (Some 110), Some 300)) [90, 130, 80])
              empty_state) ''solana'')
   \<and> get_dynamic_ath
        (run_trailing_stop shipped_trailing_stop_alerts
           (map (\<lambda>p. (''solana'', price_only p (Some 110), Some 300)) [100, 120, 90, 130, 80])
           empty_state) ''solana'' = Some 130"
  using dynamic_ath_non_decreasing
    [where ts = shipped_trailing_stop_alerts and c = "''solana''" and th' = 20
       and e = "Some 110" and g' = "Some 300" and st = empty_state
       and xs = "map (\<lambda>p. (''solana'', price_only p (Some 110), Some 300)) [100, 120]"
       and ys = "map (\<lambda>p. (''solana'', price_only p (Some 110), Some 300)) [90, 130, 80]"
       and c' = "''solana''" and d = "price_only 100 (Some 110)" and g = "Some 300"]
  by (simp add: drop_threshold_def shipped_trailing_stop_alerts_def check_for_trailing_stop_ath
      price_only_def get_dynamic_ath_empty)

lemma trailing_stop_step_270:
  "trailing_stop_step example_config ''solana'' (price_only 270 None) (Some 300) 0 True
     (solana_ath_270, no_alert_times)
   = (((False, None, 0), Inr False), solana_ath_270, no_alert_times)"
  by (simp add: trailing_stop_step_def check_for_trailing_stop_def ath_drop_check_def
      ema50_cross_check_def example_config_def price_only_def no_indicators_def
      solana_ath_270_def get_dynamic_ath_def empty_state_def)

lemma trailing_stop_step_260:
  "trailing_stop_step example_config ''solana'' (price_only 260 None) (Some 300) 21600 True
     (solana_ath_270, no_alert_times)
   = (((False, None, 0), Inr False), solana_ath_270, no_alert_times)"
  by (simp add: trailing_stop_step_def check_for_trailing_stop_def ath_drop_check_def
      ema50_cross_check_def example_config_def price_only_def no_indicators_def
      solana_ath_270_def get_dynamic_ath_def empty_state_def)

lemma trailing_stop_step_200:
  "trailing_stop_step example_config ''solana'' (price_only 200 None) (Some 300) 43200 True
     (solana_ath_270, no_alert_times)
   = (((True, Some ATH_DROP, 700 / 27), Inr True), solana_ath_270, after_200)"
  by (simp add: trailing_stop_step_def check_for_trailing_stop_def ath_drop_check_def
      ema50_cross_check_def example_config_def price_only_def no_indicators_def
      solana_ath_270_def get_dynamic_ath_def empty_state_def send_trailing_stop_alert_def
      trailing_stop_alert_key_def on_cooldown_def no_alert_times_def
      send_discord_message_def after_200_def)

lemma trailing_stop_step_195:
  "trailing_stop_step example_config ''solana'' (price_only 195 None) (Some 300) 64800 True
     (solana_ath_270, after_200)
   = (((True, Some ATH_DROP, 250 / 9), Inr True), solana_ath_270,
      after_200\<lparr>last_trailing_stop_alert_times :=
        (last_trailing_stop_alert_times after_200)
          (Key_ATH_DROP ''solana'' (250 / 9) \<mapsto> 64800)\<rparr>)"
  by (simp add: trailing_stop_step_def check_for_trailing_stop_def ath_drop_check_def
      ema50_cross_check_def example_config_def price_only_def no_indicators_def
      solana_ath_270_def get_dynamic_ath_def empty_state_def send_trailing_stop_alert_def
      trailing_stop_alert_key_def on_cooldown_def no_alert_times_def
      send_discord_message_def after_200_def)

text \<open>
  C2. Solana has a drop threshold of 25 percent, a stored dynamic ATH of 270, a cooldown
  of 48 hours and a working webhook; the main loop observes the prices 270, 260, 200, 195
  six hours apart. The detector does not fire at 270 and 260 and fires at 200 with a drop
  of 700/27 (25.9) percent, and the notification is sent. At 195 it fires again with a
  drop of 250/9 (27.8) percent, and a second notification is sent six hours after the
  first: the cooldown test looks up the key made from the new drop, which has no entry,
  while the key of the first notification is on cooldown.
\<close>

theorem ath_drop_repeat_notifies_within_cooldown:
  "run_trailing_stop_steps example_config ''solana'' (Some 300) True
     [(270, 0), (260, 21600), (200, 43200), (195, 64800)] (solana_ath_270, no_alert_times)
   = [((False, None, 0), Inr False), ((False, None, 0), Inr False),
      ((True, Some ATH_DROP, 700 / 27), Inr True), ((True, Some ATH_DROP, 250 / 9), Inr True)]
   \<and> on_cooldown (last_trailing_stop_alert_times after_200)
        (trailing_stop_alert_key ''solana'' (Some (700 / 27)) False) 64800
        (TRAILING_STOP_ALERT_COOLDOWN_HOURS example_config)
   \<and> \<not> on_cooldown (last_trailing_stop_alert_times after_200)
        (trailing_stop_alert_key ''solana'' (Some (250 / 9)) False) 64800
        (TRAILING_STOP_ALERT_COOLDOWN_HOURS example_config)
   \<and> (25.9 \<le> (700 / 27 :: real) \<and> (700 / 27 :: real) < 26)"
proof -
  have run:
    "run_trailing_stop_steps example_config ''solana'' (Some 300) True
       [(270, 0), (260, 21600), (200, 43200), (195, 64800)] (solana_ath_270, no_alert_times)
     = [((False, None, 0), Inr False), ((False, None, 0), Inr False),
        ((True, Some ATH_DROP, 700 / 27), Inr True),
        ((True, Some ATH_DROP, 250 / 9), Inr True)]"
    by (simp add: trailing_stop_step_270 trailing_stop_step_260 trailing_stop_step_200
        trailing_stop_step_195)
  have gate:
    "on_cooldown (last_trailing_stop_alert_times after_200)
       (trailing_stop_alert_key ''solana'' (Some (700 / 27)) False) 64800
       (TRAILING_STOP_ALERT_COOLDOWN_HOURS example_config)
     \<and> \<not> on_cooldown (last_trailing_stop_alert_times after_200)
       (trailing_stop_alert_key ''solana'' (Some (250 / 9)) False) 64800
       (TRAILING_STOP_ALERT_COOLDOWN_HOURS example_config)"
    by (simp add: on_cooldown_def after_200_def example_config_def
        trailing_stop_alert_key_def)
  show ?thesis using run gate by simp
qed

lemma ema50_cross_check_stores_position:
  "ts c = Some conf \<Longrightarrow> close_below_50d_ema conf = Some True \<Longrightarrow>
   get_ema50_position (snd (ema50_cross_check ts c p (Some e) st)) c
     = Some (if p \<ge> e then above else below)"
  by (simp add: ema50_cross_check_def Let_def get_ema50_position_def set_ema50_position_def)

text \<open>
  C4. With the shipped settings for Solana (threshold 20, EMA check enabled), a stored
  dynamic ATH of 270 and a stored position \<^verbatim>\<open>'above'\<close>, the call with price 200 and EMA50
  210 returns \<^verbatim>\<open>ATH_DROP\<close> and leaves the state as it was: the stored position is
  still \<^verbatim>\<open>'above'\<close> although the price is below the EMA50.
\<close>

theorem ath_drop_return_skips_ema50_position:
  "check_for_trailing_stop shipped_trailing_stop_alerts ''solana''
     (price_only 200 (Some 210)) (Some 300) solana_ath_270_above
   = ((True, Some ATH_DROP, 700 / 27), solana_ath_270_above)
   \<and> get_ema50_position solana_ath_270_above ''solana'' = Some above
   \<and> \<not> (200 \<ge> (210::real))"
  by (simp add: check_for_trailing_stop_def ath_drop_check_def
      shipped_trailing_stop_alerts_def price_only_def no_indicators_def
      solana_ath_270_above_def get_dynamic_ath_def get_ema50_position_def)

section \<open>Properties of the dip buy\<close>

lemma check_for_dip_buy_when_log_prints:
  "get_bb_lower d = Inr bl \<Longrightarrow> dip_buy_log d bl s = None \<Longrightarrow>
   check_for_dip_buy d s = Inr (conditions_met d bl s \<ge> 3)"
  by (simp add: check_for_dip_buy_def)

text \<open>
  C6. With exactly three conditions true (price near the EMAs, price near the lower
  band, a 7-sample change of -12 percent) and no FGI score, \<open>check_for_dip_buy\<close> raises
  TypeError in its log line instead of returning true. With exactly two conditions true
  (RSI 32, FGI 35) and the Bollinger entry \<^verbatim>\<open>None\<close>, it raises AttributeError instead
  of returning false.
\<close>

theorem check_for_dip_buy_raises:
  "conditions_met dip_three_no_fgi (Some 122) fgi_fetch_failed = 3
   \<and> check_for_dip_buy dip_three_no_fgi fgi_fetch_failed = Inl TypeError
   \<and> conditions_met dip_two_no_bands None sample_sentiment_dip = 2
   \<and> check_for_dip_buy dip_two_no_bands sample_sentiment_dip = Inl AttributeError"
  by (simp add: conditions_met_def check_for_dip_buy_def get_bb_lower_def dip_buy_log_def
      is_rsi_oversold_def is_near_emas_def is_near_bb_lower_def is_recent_dip_def
      is_fgi_fearful_def dip_three_no_fgi_def fgi_fetch_failed_def dip_two_no_bands_def
      sample_sentiment_dip_def)

end
